theory Spec2Isabelle
  imports Main "HOL-Library.AList"
begin

section \<open>The problem-matcher registry of packages/task\<close>

text \<open>
  The theory embeds \<^verbatim>\<open>packages/task/src/browser/task-problem-matcher-registry.ts\<close>:
  the class \<^verbatim>\<open>ProblemMatcherRegistry\<close> with its methods \<^verbatim>\<open>init\<close>, \<^verbatim>\<open>onReady\<close>,
  \<^verbatim>\<open>register\<close>, \<^verbatim>\<open>get\<close>, \<^verbatim>\<open>getAll\<close>, \<^verbatim>\<open>getProblemMatcherFromContribution\<close>,
  \<^verbatim>\<open>add\<close>, \<^verbatim>\<open>getFileLocationKindAndPrefix\<close> and \<^verbatim>\<open>fillDefaults\<close>.

  The module \<^verbatim>\<open>../common\<close> (the enums and their parsers, the pattern and watcher
  converters) and the class \<^verbatim>\<open>ProblemPatternRegistry\<close> are imported by that file but
  are not part of the sources at hand. Their functions are parameters of the embedding:
  the record \<open>common\<close> below, and the lookup function of the pattern registry.
\<close>

subsection \<open>Strings and JavaScript truthiness\<close>

definition startsWith :: "string \<Rightarrow> string \<Rightarrow> bool" where
  "startsWith s p = (take (length p) s = p)"

definition slice :: "string \<Rightarrow> nat \<Rightarrow> string" where
  "slice s n = drop n s"

text \<open>\<^verbatim>\<open>!x\<close> for an optional string: \<^verbatim>\<open>undefined\<close> and the empty string are falsy.\<close>

definition falsy :: "string option \<Rightarrow> bool" where
  "falsy x = (case x of None \<Rightarrow> True | Some s \<Rightarrow> s = [])"

subsection \<open>Enums and records of \<^verbatim>\<open>../common\<close>\<close>

text \<open>
  Modelled from the spec: the declarations of the enums \<^verbatim>\<open>ApplyToKind\<close> and
  \<^verbatim>\<open>FileLocationKind\<close> are missing from the sources, which use the members
  \<^verbatim>\<open>allDocuments\<close>, \<^verbatim>\<open>closedDocuments\<close>, \<^verbatim>\<open>Relative\<close> and \<^verbatim>\<open>Absolute\<close>; the spec adds
  \<^verbatim>\<open>openDocuments\<close> and \<^verbatim>\<open>autoDetect\<close>.
\<close>

datatype ApplyToKind = allDocuments | openDocuments | closedDocuments

datatype FileLocationKind = Auto | Relative | Absolute

text \<open>
  Modelled from the spec: the members of \<^verbatim>\<open>Severity\<close> other than \<^verbatim>\<open>Severity.Error\<close>
  (which \<^verbatim>\<open>fillDefaults\<close> uses) are missing from the sources; the spec names the
  conventional error, warning and info tokens.
\<close>

datatype Severity = Info | Warning | Error

text \<open>\<^verbatim>\<open>ProblemPattern | ProblemPattern[]\<close>, what the pattern registry hands out.\<close>

datatype 'p RegisteredPattern = Single 'p | Multi "'p list"

text \<open>\<^verbatim>\<open>fileLocation\<close> of a contribution: a token, or an array of strings.\<close>

datatype FileLocationContribution = Token string | Tokens "string list"

text \<open>
  \<^verbatim>\<open>pattern\<close> of a contribution: a name, an inline pattern contribution, or an array of
  inline pattern contributions.
\<close>

datatype 'pc PatternContribution =
  PatternName string | PatternInline 'pc | PatternInlines "'pc list"

text \<open>An absent (\<^verbatim>\<open>undefined\<close>) property is \<open>None\<close>.\<close>

record ('pc, 'wc) ProblemMatcherContribution =
  name :: "string option"
  label :: "string option"
  deprecated :: "bool option"
  owner :: "string option"
  source :: "string option"
  applyTo :: "string option"
  fileLocation :: "FileLocationContribution option"
  pattern :: "'pc PatternContribution option"
  severity :: "string option"
  background :: "'wc option"
  watching :: "'wc option"

text \<open>
  The object that \<^verbatim>\<open>getProblemMatcherFromContribution\<close> builds and that the registry
  stores as a \<^verbatim>\<open>NamedProblemMatcher\<close>. The field \<open>pattern\<close> is \<open>None\<close> where
  \<^verbatim>\<open>fillDefaults\<close> stores the \<^verbatim>\<open>undefined\<close> of a failed lookup behind its non-null
  assertion.
\<close>

record ('p, 'w) ProblemMatcher =
  name :: "string option"
  label :: "string option"
  deprecated :: "bool option"
  owner :: "string option"
  source :: "string option"
  applyTo :: ApplyToKind
  fileLocation :: FileLocationKind
  filePrefix :: "string option"
  pattern :: "'p RegisteredPattern option"
  severity :: "Severity option"
  watching :: "'w option"

text \<open>
  The functions of \<^verbatim>\<open>../common\<close> that the registry calls, as parameters. The two
  \<open>truthy\<close> fields say which enum members are truthy in JavaScript (a numeric enum's
  member \<open>0\<close> is not): \<^verbatim>\<open>fromString(x) || allDocuments\<close> and \<^verbatim>\<open>if (locationKind)\<close>
  test them.
\<close>

record ('pc, 'p, 'wc, 'w) common =
  ApplyToKind_fromString :: "string option \<Rightarrow> ApplyToKind option"
  ApplyToKind_truthy :: "ApplyToKind \<Rightarrow> bool"
  FileLocationKind_fromString :: "string \<Rightarrow> FileLocationKind option"
  FileLocationKind_truthy :: "FileLocationKind \<Rightarrow> bool"
  Severity_fromValue :: "string option \<Rightarrow> Severity option"
  fromProblemPatternContribution :: "'pc \<Rightarrow> 'p"
  fromWatchingMatcherContribution :: "'wc option \<Rightarrow> 'w option"

subsection \<open>The registry object\<close>

text \<open>A promise is pending or fulfilled; \<^verbatim>\<open>new Promise((res, rej) => res(undefined))\<close> is fulfilled.\<close>

datatype Promise = Pending | Fulfilled

text \<open>
  The fields of the class. \<open>matchers\<close> is the object created by \<^verbatim>\<open>Object.create(null)\<close>:
  its own properties in creation order (no inherited ones). \<open>readyPromise\<close> is \<open>None\<close>
  as long as the field was never assigned. \<open>console\<close> collects what \<^verbatim>\<open>console.error\<close>
  was called with.
\<close>

record ('p, 'w) ProblemMatcherRegistry =
  matchers :: "(string \<times> ('p, 'w) ProblemMatcher) list"
  readyPromise :: "Promise option"
  console :: "string list"

subsection \<open>\<^verbatim>\<open>Object.keys\<close>\<close>

text \<open>
  \<^verbatim>\<open>Object.keys\<close> lists the keys that are array indices (canonical decimal numerals
  below \<open>2^32 - 1\<close>) first, in ascending numeric order, and then the other keys in
  creation order.
\<close>

definition is_digit :: "char \<Rightarrow> bool" where
  "is_digit c = (c \<in> set ''0123456789'')"

definition decimal_value :: "string \<Rightarrow> int" where
  "decimal_value s = foldl (\<lambda>a c. 10 * a + (of_char c - 48)) 0 s"

definition array_index :: "string \<Rightarrow> int option" where
  "array_index s =
     (if s \<noteq> [] \<and> list_all is_digit s \<and> (s = ''0'' \<or> hd s \<noteq> CHR ''0'')
         \<and> decimal_value s < 4294967295
      then Some (decimal_value s) else None)"

definition Object_keys :: "(string \<times> 'v) list \<Rightarrow> string list" where
  "Object_keys obj =
     (let ks = map fst obj
      in sort_key decimal_value (filter (\<lambda>k. array_index k \<noteq> None) ks)
         @ filter (\<lambda>k. array_index k = None) ks)"

subsection \<open>The methods\<close>

definition onReady :: "('p, 'w, 'z) ProblemMatcherRegistry_scheme \<Rightarrow> Promise option" where
  "onReady s = readyPromise s"

definition get ::
  "('p, 'w, 'z) ProblemMatcherRegistry_scheme \<Rightarrow> string \<Rightarrow> ('p, 'w) ProblemMatcher option" where
  "get s name' =
     (if startsWith name' ''$'' then map_of (matchers s) (slice name' 1)
      else map_of (matchers s) name')"

text \<open>
  The loop pushes \<^verbatim>\<open>this.get(matcherName)!\<close> for every key: the assertion does nothing at
  run time, so an \<^verbatim>\<open>undefined\<close> element is \<open>None\<close>.
\<close>

definition getAll ::
  "('p, 'w, 'z) ProblemMatcherRegistry_scheme \<Rightarrow> ('p, 'w) ProblemMatcher option list" where
  "getAll s = map (get s) (Object_keys (matchers s))"

text \<open>
  \<^verbatim>\<open>this.matchers[matcher.name] = matcher\<close>: an existing property keeps its place, a new
  one goes last. The parameter is typed \<^verbatim>\<open>NamedProblemMatcher\<close>, whose name is a string;
  the key of an absent name would be the string \<^verbatim>\<open>undefined\<close>.
\<close>

definition add ::
  "('p, 'w) ProblemMatcher \<Rightarrow> ('p, 'w, 'z) ProblemMatcherRegistry_scheme
     \<Rightarrow> ('p, 'w, 'z) ProblemMatcherRegistry_scheme" where
  "add matcher s =
     s\<lparr>matchers :=
         AList.update (case name matcher of Some n \<Rightarrow> n | None \<Rightarrow> ''undefined'') matcher
           (matchers s)\<rparr>"

definition getFileLocationKindAndPrefix ::
  "('pc, 'p, 'wc, 'w) common \<Rightarrow> ('pc, 'wc) ProblemMatcherContribution
     \<Rightarrow> FileLocationKind \<times> string" where
  "getFileLocationKindAndPrefix cm matcher =
     (case ProblemMatcherContribution.fileLocation matcher of
        None \<Rightarrow> (Relative, ''${workspaceFolder}'')
      | Some (Tokens arr) \<Rightarrow>
          (if length arr > 0 then
             (let locationKind = FileLocationKind_fromString cm (arr ! 0)
              in if length arr = 1 \<and> locationKind = Some Absolute
                 then (Absolute, ''${workspaceFolder}'')
                 else if length arr = 2 \<and> locationKind = Some Relative \<and> arr ! 1 \<noteq> []
                 then (Relative, arr ! 1)
                 else (Relative, ''${workspaceFolder}''))
           else (Relative, ''${workspaceFolder}''))
      | Some (Token t) \<Rightarrow>
          (case FileLocationKind_fromString cm t of
             None \<Rightarrow> (Relative, ''${workspaceFolder}'')
           | Some locationKind \<Rightarrow>
               (if FileLocationKind_truthy cm locationKind
                then (locationKind, ''${workspaceFolder}'')
                else (Relative, ''${workspaceFolder}''))))"

text \<open>
  The value the promise of \<^verbatim>\<open>getProblemMatcherFromContribution\<close> is fulfilled with.
  \<open>problemPatternRegistry_get\<close> is \<^verbatim>\<open>this.problemPatternRegistry.get\<close> at the time the
  function runs on after \<^verbatim>\<open>await this.problemPatternRegistry.onReady()\<close>; it is read only
  for a pattern that is a truthy (non-empty) string.
\<close>

definition getProblemMatcherFromContribution ::
  "('pc, 'p, 'wc, 'w) common \<Rightarrow> (string \<Rightarrow> 'p RegisteredPattern option)
     \<Rightarrow> ('pc, 'wc) ProblemMatcherContribution \<Rightarrow> ('p, 'w) ProblemMatcher" where
  "getProblemMatcherFromContribution cm problemPatternRegistry_get matcher =
     (let (fileLocation', filePrefix') = getFileLocationKindAndPrefix cm matcher;
          patterns =
            (case ProblemMatcherContribution.pattern matcher of
               None \<Rightarrow> []
             | Some (PatternName n) \<Rightarrow>
                 (if n = [] then []
                  else (case problemPatternRegistry_get n of
                          Some (Multi registeredPattern) \<Rightarrow> registeredPattern
                        | Some (Single registeredPattern) \<Rightarrow> [registeredPattern]
                        | None \<Rightarrow> []))
             | Some (PatternInlines ps) \<Rightarrow> map (fromProblemPatternContribution cm) ps
             | Some (PatternInline p) \<Rightarrow> [fromProblemPatternContribution cm p])
      in \<lparr>name = ProblemMatcherContribution.name matcher,
          label = ProblemMatcherContribution.label matcher,
          deprecated = ProblemMatcherContribution.deprecated matcher,
          owner = ProblemMatcherContribution.owner matcher,
          source = ProblemMatcherContribution.source matcher,
          applyTo =
            (case ApplyToKind_fromString cm (ProblemMatcherContribution.applyTo matcher) of
               None \<Rightarrow> allDocuments
             | Some k \<Rightarrow> if ApplyToKind_truthy cm k then k else allDocuments),
          fileLocation = fileLocation',
          filePrefix = Some filePrefix',
          pattern = Some (Multi patterns),
          severity = Severity_fromValue cm (ProblemMatcherContribution.severity matcher),
          watching =
            fromWatchingMatcherContribution cm
              (case ProblemMatcherContribution.background matcher of
                 Some b \<Rightarrow> Some b
               | None \<Rightarrow> ProblemMatcherContribution.watching matcher)\<rparr>)"

text \<open>
  \<^verbatim>\<open>register\<close> from its call to the fulfilment of its promise. The state \<open>s\<close> is the
  registry at the time \<^verbatim>\<open>this.add\<close> runs: the resolution of the contribution does not
  read the registry, so whatever ran during the two \<^verbatim>\<open>await\<close>s is part of \<open>s\<close>.
\<close>

definition register ::
  "('pc, 'p, 'wc, 'w) common \<Rightarrow> (string \<Rightarrow> 'p RegisteredPattern option)
     \<Rightarrow> ('pc, 'wc) ProblemMatcherContribution
     \<Rightarrow> ('p, 'w, 'z) ProblemMatcherRegistry_scheme
     \<Rightarrow> ('p, 'w, 'z) ProblemMatcherRegistry_scheme" where
  "register cm problemPatternRegistry_get matcher s =
     (if falsy (ProblemMatcherContribution.name matcher)
      then s\<lparr>console := console s @ [''Only named Problem Matchers can be registered.'']\<rparr>
      else add (getProblemMatcherFromContribution cm problemPatternRegistry_get matcher) s)"

text \<open>The eight object literals of \<^verbatim>\<open>fillDefaults\<close>, in the order they are added.\<close>

definition defaultMatchers ::
  "(string \<Rightarrow> 'p RegisteredPattern option) \<Rightarrow> ('p, 'w) ProblemMatcher list" where
  "defaultMatchers problemPatternRegistry_get =
     [\<lparr>name = Some ''msCompile'', label = Some ''Microsoft compiler problems'',
       deprecated = None, owner = Some ''msCompile'', source = None,
       applyTo = allDocuments, fileLocation = Absolute, filePrefix = None,
       pattern = problemPatternRegistry_get ''msCompile'', severity = None, watching = None\<rparr>,
      \<lparr>name = Some ''lessCompile'', label = Some ''Less problems'',
       deprecated = Some True, owner = Some ''lessCompile'', source = Some ''less'',
       applyTo = allDocuments, fileLocation = Absolute, filePrefix = None,
       pattern = problemPatternRegistry_get ''lessCompile'', severity = Some Error,
       watching = None\<rparr>,
      \<lparr>name = Some ''gulp-tsc'', label = Some ''Gulp TSC Problems'',
       deprecated = None, owner = Some ''typescript'', source = Some ''ts'',
       applyTo = closedDocuments, fileLocation = Relative,
       filePrefix = Some ''${workspaceFolder}'',
       pattern = problemPatternRegistry_get ''gulp-tsc'', severity = None, watching = None\<rparr>,
      \<lparr>name = Some ''jshint'', label = Some ''JSHint problems'',
       deprecated = None, owner = Some ''jshint'', source = Some ''jshint'',
       applyTo = allDocuments, fileLocation = Absolute, filePrefix = None,
       pattern = problemPatternRegistry_get ''jshint'', severity = None, watching = None\<rparr>,
      \<lparr>name = Some ''jshint-stylish'', label = Some ''JSHint stylish problems'',
       deprecated = None, owner = Some ''jshint'', source = Some ''jshint'',
       applyTo = allDocuments, fileLocation = Absolute, filePrefix = None,
       pattern = problemPatternRegistry_get ''jshint-stylish'', severity = None,
       watching = None\<rparr>,
      \<lparr>name = Some ''eslint-compact'', label = Some ''ESLint compact problems'',
       deprecated = None, owner = Some ''eslint'', source = Some ''eslint'',
       applyTo = allDocuments, fileLocation = Absolute,
       filePrefix = Some ''${workspaceFolder}'',
       pattern = problemPatternRegistry_get ''eslint-compact'', severity = None,
       watching = None\<rparr>,
      \<lparr>name = Some ''eslint-stylish'', label = Some ''ESLint stylish problems'',
       deprecated = None, owner = Some ''eslint'', source = Some ''eslint'',
       applyTo = allDocuments, fileLocation = Absolute, filePrefix = None,
       pattern = problemPatternRegistry_get ''eslint-stylish'', severity = None,
       watching = None\<rparr>,
      \<lparr>name = Some ''go'', label = Some ''Go problems'',
       deprecated = None, owner = Some ''go'', source = Some ''go'',
       applyTo = allDocuments, fileLocation = Relative,
       filePrefix = Some ''${workspaceFolder}'',
       pattern = problemPatternRegistry_get ''go'', severity = None, watching = None\<rparr>]"

definition fillDefaults ::
  "(string \<Rightarrow> 'p RegisteredPattern option) \<Rightarrow> ('p, 'w, 'z) ProblemMatcherRegistry_scheme
     \<Rightarrow> ('p, 'w, 'z) ProblemMatcherRegistry_scheme" where
  "fillDefaults problemPatternRegistry_get s =
     foldl (\<lambda>s' matcher. add matcher s') s (defaultMatchers problemPatternRegistry_get)"

subsection \<open>Promises and the job queue\<close>

text \<open>
  What runs later. \<open>InitThen\<close> is the callback \<^verbatim>\<open>init\<close> passes to
  \<^verbatim>\<open>this.problemPatternRegistry.onReady().then\<close>. \<open>ResolvePattern\<close> is a call of
  \<^verbatim>\<open>register\<close> suspended at \<^verbatim>\<open>await this.problemPatternRegistry.onReady()\<close>, and
  \<open>AddMatcher\<close> one suspended at \<^verbatim>\<open>await this.getProblemMatcherFromContribution(matcher)\<close>
  with the matcher its promise is fulfilled with.
\<close>

datatype ('pc, 'wc, 'p, 'w) job =
    InitThen
  | ResolvePattern "('pc, 'wc) ProblemMatcherContribution"
  | AddMatcher "('p, 'w) ProblemMatcher"

text \<open>
  Modelled from the spec: the readiness signal of the pattern registry, whose class is
  missing from the sources, is a promise that is pending until it is fulfilled once.
  \<open>patternsReady\<close> says that it is fulfilled, \<open>reactions\<close> are the continuations waiting
  for it, in the order they were attached. \<open>jobs\<close> is the queue of continuations that
  are ready to run.
\<close>

record ('pc, 'wc, 'p, 'w) world = "('p, 'w) ProblemMatcherRegistry" +
  patternsReady :: bool
  reactions :: "('pc, 'wc, 'p, 'w) job list"
  jobs :: "('pc, 'wc, 'p, 'w) job list"

definition onReady_then ::
  "('pc, 'wc, 'p, 'w) job \<Rightarrow> ('pc, 'wc, 'p, 'w) world \<Rightarrow> ('pc, 'wc, 'p, 'w) world" where
  "onReady_then j w =
     (if patternsReady w then w\<lparr>jobs := jobs w @ [j]\<rparr>
      else w\<lparr>reactions := reactions w @ [j]\<rparr>)"

text \<open>
  \<^verbatim>\<open>init\<close>, run once after construction: the map is empty, \<open>readyPromise\<close> is not
  assigned, and the callback waits for the pattern registry.
\<close>

definition init :: "bool \<Rightarrow> ('pc, 'wc, 'p, 'w) world" where
  "init ready =
     onReady_then InitThen
       \<lparr>matchers = [], readyPromise = None, console = [],
        patternsReady = ready, reactions = [], jobs = []\<rparr>"

text \<open>The part of \<^verbatim>\<open>register\<close> that runs in the caller's turn, up to the first \<^verbatim>\<open>await\<close>.\<close>

definition register_call ::
  "('pc, 'p, 'wc, 'w) common \<Rightarrow> (string \<Rightarrow> 'p RegisteredPattern option)
     \<Rightarrow> ('pc, 'wc) ProblemMatcherContribution
     \<Rightarrow> ('pc, 'wc, 'p, 'w) world \<Rightarrow> ('pc, 'wc, 'p, 'w) world" where
  "register_call cm problemPatternRegistry_get matcher w =
     (if falsy (ProblemMatcherContribution.name matcher)
      then w\<lparr>console := console w @ [''Only named Problem Matchers can be registered.'']\<rparr>
      else (case ProblemMatcherContribution.pattern matcher of
              Some (PatternName n) \<Rightarrow>
                (if n = []
                 then w\<lparr>jobs := jobs w @
                        [AddMatcher
                           (getProblemMatcherFromContribution cm problemPatternRegistry_get
                              matcher)]\<rparr>
                 else onReady_then (ResolvePattern matcher) w)
            | _ \<Rightarrow>
                w\<lparr>jobs := jobs w @
                     [AddMatcher
                        (getProblemMatcherFromContribution cm problemPatternRegistry_get
                           matcher)]\<rparr>))"

definition run_job ::
  "('pc, 'p, 'wc, 'w) common \<Rightarrow> (string \<Rightarrow> 'p RegisteredPattern option)
     \<Rightarrow> ('pc, 'wc, 'p, 'w) job
     \<Rightarrow> ('pc, 'wc, 'p, 'w) world \<Rightarrow> ('pc, 'wc, 'p, 'w) world" where
  "run_job cm problemPatternRegistry_get j w =
     (case j of
        InitThen \<Rightarrow> (fillDefaults problemPatternRegistry_get w)\<lparr>readyPromise := Some Fulfilled\<rparr>
      | ResolvePattern matcher \<Rightarrow>
          w\<lparr>jobs := jobs w @
               [AddMatcher
                  (getProblemMatcherFromContribution cm problemPatternRegistry_get matcher)]\<rparr>
      | AddMatcher problemMatcher \<Rightarrow> add problemMatcher w)"

text \<open>
  What can happen next: the pattern registry becomes ready, somebody calls
  \<^verbatim>\<open>register\<close>, or the first job of the queue runs.
\<close>

datatype ('pc, 'wc) event =
    PatternsReady
  | Register "('pc, 'wc) ProblemMatcherContribution"
  | RunJob

definition step ::
  "('pc, 'p, 'wc, 'w) common \<Rightarrow> (string \<Rightarrow> 'p RegisteredPattern option)
     \<Rightarrow> ('pc, 'wc) event
     \<Rightarrow> ('pc, 'wc, 'p, 'w) world \<Rightarrow> ('pc, 'wc, 'p, 'w) world" where
  "step cm problemPatternRegistry_get e w =
     (case e of
        PatternsReady \<Rightarrow>
          (if patternsReady w then w
           else w\<lparr>patternsReady := True, jobs := jobs w @ reactions w, reactions := []\<rparr>)
      | Register matcher \<Rightarrow> register_call cm problemPatternRegistry_get matcher w
      | RunJob \<Rightarrow>
          (case jobs w of
             [] \<Rightarrow> w
           | j # js \<Rightarrow> run_job cm problemPatternRegistry_get j (w\<lparr>jobs := js\<rparr>)))"

text \<open>
  A history is a list of events, each with the content of the pattern registry at that
  time.
\<close>

definition run ::
  "('pc, 'p, 'wc, 'w) common
     \<Rightarrow> ((string \<Rightarrow> 'p RegisteredPattern option) \<times> ('pc, 'wc) event) list
     \<Rightarrow> ('pc, 'wc, 'p, 'w) world \<Rightarrow> ('pc, 'wc, 'p, 'w) world" where
  "run cm evs w = foldl (\<lambda>w' (pr, e). step cm pr e w') w evs"

subsection \<open>Properties of states\<close>

text \<open>Every stored matcher carries the key it is stored under as its name.\<close>

definition named :: "('p, 'w, 'z) ProblemMatcherRegistry_scheme \<Rightarrow> bool" where
  "named s = list_all (\<lambda>(k, m). ProblemMatcher.name m = Some k) (matchers s)"

text \<open>The callback of \<^verbatim>\<open>init\<close> has not run yet: it waits, or it is in the job queue.\<close>

definition seedingPending :: "('pc, 'wc, 'p, 'w) world \<Rightarrow> bool" where
  "seedingPending w = (InitThen \<in> set (reactions w) \<or> InitThen \<in> set (jobs w))"

text \<open>The names of the eight literals of \<^verbatim>\<open>fillDefaults\<close>.\<close>

definition defaultNames :: "string list" where
  "defaultNames =
     [''msCompile'', ''lessCompile'', ''gulp-tsc'', ''jshint'', ''jshint-stylish'',
      ''eslint-compact'', ''eslint-stylish'', ''go'']"

text \<open>
  A suspended call of \<^verbatim>\<open>register\<close> has passed the check of the name, so its
  contribution and its matcher are named.
\<close>

definition queued_ok :: "('pc, 'wc, 'p, 'w) job \<Rightarrow> bool" where
  "queued_ok j =
     (case j of
        InitThen \<Rightarrow> True
      | ResolvePattern matcher \<Rightarrow> \<not> falsy (ProblemMatcherContribution.name matcher)
      | AddMatcher problemMatcher \<Rightarrow> ProblemMatcher.name problemMatcher \<noteq> None)"

text \<open>
  What holds of the registry and its queues throughout every history: the stored matchers
  carry their keys as names, the keys are unique, the callback of \<^verbatim>\<open>init\<close> is pending
  exactly once as long as \<open>readyPromise\<close> is not assigned and never afterwards, it waits
  as long as the pattern registry is not ready, and once \<open>readyPromise\<close> is assigned it is
  fulfilled and the default names are keys.
\<close>

definition consistent :: "('pc, 'wc, 'p, 'w) world \<Rightarrow> bool" where
  "consistent w =
     (named w \<and> distinct (map fst (matchers w)) \<and>
      list_all queued_ok (reactions w) \<and> list_all queued_ok (jobs w) \<and>
      (\<not> patternsReady w \<longrightarrow> InitThen \<in> set (reactions w)) \<and>
      length (filter (\<lambda>j. j = InitThen) (reactions w)) +
        length (filter (\<lambda>j. j = InitThen) (jobs w)) =
        (if readyPromise w = None then 1 else 0) \<and>
      (readyPromise w = None \<or> readyPromise w = Some Fulfilled) \<and>
      (readyPromise w \<noteq> None \<longrightarrow> set defaultNames \<subseteq> fst ` set (matchers w)))"

text \<open>
  A job or an event spares the default table when it is not the callback of \<^verbatim>\<open>init\<close> and
  does not register under a default name. A history is quiet for a state when the jobs
  of the state and the events of the history all spare the default table.
\<close>

definition spares :: "('pc, 'wc, 'p, 'w) job \<Rightarrow> bool" where
  "spares j =
     (case j of
        InitThen \<Rightarrow> False
      | ResolvePattern matcher \<Rightarrow>
          ProblemMatcherContribution.name matcher \<notin> set (map Some defaultNames)
      | AddMatcher problemMatcher \<Rightarrow>
          ProblemMatcher.name problemMatcher \<notin> set (map Some defaultNames))"

definition spares_event :: "('pc, 'wc) event \<Rightarrow> bool" where
  "spares_event e =
     (case e of
        Register matcher \<Rightarrow>
          ProblemMatcherContribution.name matcher \<notin> set (map Some defaultNames)
      | _ \<Rightarrow> True)"

definition quiet ::
  "('pc, 'wc, 'p, 'w) world
     \<Rightarrow> ((string \<Rightarrow> 'p RegisteredPattern option) \<times> ('pc, 'wc) event) list \<Rightarrow> bool" where
  "quiet w evs =
     (list_all spares (reactions w) \<and> list_all spares (jobs w) \<and>
      list_all (\<lambda>(pr, e). spares_event e) evs)"

subsection \<open>An instance of the parameters\<close>

text \<open>
  Modelled from the spec: \<^verbatim>\<open>ApplyToKind.fromString\<close> of \<^verbatim>\<open>../common\<close>, missing from the
  sources. The tokens are \<^verbatim>\<open>allDocuments\<close>, \<^verbatim>\<open>openDocuments\<close> and \<^verbatim>\<open>closedDocuments\<close>;
  an absent value and any other string parse to nothing.
\<close>

definition ApplyToKind_fromString_spec :: "string option \<Rightarrow> ApplyToKind option" where
  "ApplyToKind_fromString_spec x =
     (case x of
        None \<Rightarrow> None
      | Some v \<Rightarrow>
          if v = ''allDocuments'' then Some allDocuments
          else if v = ''openDocuments'' then Some openDocuments
          else if v = ''closedDocuments'' then Some closedDocuments
          else None)"

text \<open>
  Modelled from the spec: \<^verbatim>\<open>FileLocationKind.fromString\<close> of \<^verbatim>\<open>../common\<close>, missing from
  the sources. The tokens are \<^verbatim>\<open>absolute\<close>, \<^verbatim>\<open>relative\<close> and \<^verbatim>\<open>autoDetect\<close>.
\<close>

definition FileLocationKind_fromString_spec :: "string \<Rightarrow> FileLocationKind option" where
  "FileLocationKind_fromString_spec v =
     (if v = ''absolute'' then Some Absolute
      else if v = ''relative'' then Some Relative
      else if v = ''autoDetect'' then Some Auto
      else None)"

text \<open>
  Modelled from the spec: \<^verbatim>\<open>Severity.fromValue\<close> of \<^verbatim>\<open>../common\<close>, missing from the
  sources, on the conventional tokens; unset when absent or unparseable.
\<close>

definition Severity_fromValue_spec :: "string option \<Rightarrow> Severity option" where
  "Severity_fromValue_spec x =
     (case x of
        None \<Rightarrow> None
      | Some v \<Rightarrow>
          if v = ''error'' then Some Error
          else if v = ''warning'' then Some Warning
          else if v = ''info'' then Some Info
          else None)"

text \<open>
  Modelled from the spec: the module \<^verbatim>\<open>../common\<close>, missing from the sources. Every
  parsed kind is kept (all members truthy), as the spec describes the single-token and
  the \<^verbatim>\<open>applyTo\<close> cases; inline patterns and watcher descriptors, whose converters
  the spec does not describe, are taken over as they are.
\<close>

definition common_spec :: "('p, 'p, 'w, 'w) common" where
  "common_spec =
     \<lparr>ApplyToKind_fromString = ApplyToKind_fromString_spec,
      ApplyToKind_truthy = (\<lambda>k. True),
      FileLocationKind_fromString = FileLocationKind_fromString_spec,
      FileLocationKind_truthy = (\<lambda>k. True),
      Severity_fromValue = Severity_fromValue_spec,
      fromProblemPatternContribution = (\<lambda>p. p),
      fromWatchingMatcherContribution = (\<lambda>w. w)\<rparr>"

text \<open>
  Modelled from the spec: the module \<^verbatim>\<open>../common\<close> as above, with \<^verbatim>\<open>ApplyToKind\<close> a
  numeric enum in the order the spec lists its tokens, so that \<^verbatim>\<open>allDocuments\<close> is \<open>0\<close>
  and falsy.
\<close>

definition common_numeric :: "('p, 'p, 'w, 'w) common" where
  "common_numeric =
     \<lparr>ApplyToKind_fromString = ApplyToKind_fromString_spec,
      ApplyToKind_truthy = (\<lambda>k. k \<noteq> allDocuments),
      FileLocationKind_fromString = FileLocationKind_fromString_spec,
      FileLocationKind_truthy = (\<lambda>k. True),
      Severity_fromValue = Severity_fromValue_spec,
      fromProblemPatternContribution = (\<lambda>p. p),
      fromWatchingMatcherContribution = (\<lambda>w. w)\<rparr>"

subsection \<open>Inputs of the examples\<close>

text \<open>The contribution \<^verbatim>\<open>{ name: n }\<close> (or \<^verbatim>\<open>{}\<close>), every other property absent.\<close>

definition contribution :: "string option \<Rightarrow> (nat, unit) ProblemMatcherContribution" where
  "contribution n =
     \<lparr>ProblemMatcherContribution.name = n,
      ProblemMatcherContribution.label = None,
      ProblemMatcherContribution.deprecated = None,
      ProblemMatcherContribution.owner = None,
      ProblemMatcherContribution.source = None,
      ProblemMatcherContribution.applyTo = None,
      ProblemMatcherContribution.fileLocation = None,
      ProblemMatcherContribution.pattern = None,
      ProblemMatcherContribution.severity = None,
      ProblemMatcherContribution.background = None,
      ProblemMatcherContribution.watching = None\<rparr>"

text \<open>A pattern registry in which no pattern is registered.\<close>

definition noPatterns :: "string \<Rightarrow> nat RegisteredPattern option" where
  "noPatterns = map_of []"

text \<open>Two more pattern registries: one with two names, one with the empty name.\<close>

definition somePatterns :: "string \<Rightarrow> nat RegisteredPattern option" where
  "somePatterns = map_of [(''three'', Multi [1, 2, 3]), (''one'', Single 7)]"

definition emptyNamePatterns :: "string \<Rightarrow> nat RegisteredPattern option" where
  "emptyNamePatterns = map_of [('''', Multi [1, 2, 3])]"

text \<open>The contribution \<^verbatim>\<open>{ name: "msCompile", pattern: [] }\<close>.\<close>

definition msCompileAgain :: "(nat, unit) ProblemMatcherContribution" where
  "msCompileAgain =
     (contribution (Some ''msCompile''))\<lparr>ProblemMatcherContribution.pattern :=
        Some (PatternInlines [])\<rparr>"

text \<open>The registry as \<^verbatim>\<open>init\<close> leaves it.\<close>

definition created :: "(nat, unit) ProblemMatcherRegistry" where
  "created = \<lparr>matchers = [], readyPromise = None, console = []\<rparr>"

section \<open>Basic facts\<close>

lemma set_Object_keys: "set (Object_keys obj) = fst ` set obj"
  by (auto simp: Object_keys_def Let_def)

lemma length_Object_keys: "length (Object_keys obj) = length obj"
proof -
  have "length (filter (\<lambda>k. array_index k \<noteq> None) (map fst obj))
        + length (filter (\<lambda>k. \<not> array_index k \<noteq> None) (map fst obj)) = length (map fst obj)"
    by (rule sum_length_filter_compl)
  then show ?thesis by (simp add: Object_keys_def Let_def)
qed

lemma length_getAll: "length (getAll s) = length (matchers s)"
  by (simp add: getAll_def length_Object_keys)

lemma startsWith_dollar: "startsWith k ''$'' \<longleftrightarrow> (\<exists>r. k = CHR ''$'' # r)"
  by (cases k) (auto simp: startsWith_def)

lemma get_dollar: "get s (CHR ''$'' # n) = map_of (matchers s) n"
  by (simp add: get_def startsWith_def slice_def)

lemma get_plain: "\<not> startsWith k ''$'' \<Longrightarrow> get s k = map_of (matchers s) k"
  by (simp add: get_def)

lemma getAll_member:
  assumes "map_of (matchers s) k = Some m" and "\<not> startsWith k ''$''"
  shows "Some m \<in> set (getAll s)"
proof -
  from assms(1) have "k \<in> fst ` set (matchers s)"
    by (metis map_of_eq_None_iff option.distinct(1))
  then have "k \<in> set (Object_keys (matchers s))"
    by (simp add: set_Object_keys)
  moreover have "get s k = Some m"
    using assms by (simp add: get_plain)
  ultimately show ?thesis
    unfolding getAll_def by force
qed

lemma matchers_add:
  "matchers (add m s) =
     AList.update (case ProblemMatcher.name m of Some n \<Rightarrow> n | None \<Rightarrow> ''undefined'') m
       (matchers s)"
  by (simp add: add_def)

lemma add_other [simp]:
  "readyPromise (add m s) = readyPromise s"
  "console (add m s) = console s"
  by (simp_all add: add_def)

lemma add_world [simp]:
  "jobs (add m w) = jobs w"
  "reactions (add m w) = reactions w"
  "patternsReady (add m w) = patternsReady w"
  by (simp_all add: add_def)

lemma resolved_name [simp]:
  "ProblemMatcher.name (getProblemMatcherFromContribution cm pr c) =
     ProblemMatcherContribution.name c"
  by (simp add: getProblemMatcherFromContribution_def Let_def split: prod.splits)

lemma register_named:
  "ProblemMatcherContribution.name c = Some n \<Longrightarrow> n \<noteq> [] \<Longrightarrow>
   map_of (matchers (register cm pr c s)) n = Some (getProblemMatcherFromContribution cm pr c)"
  by (simp add: register_def falsy_def matchers_add update_conv')

section \<open>Registration and lookup\<close>

text \<open>
  Claim C1, as amended. For every contribution whose name is a non-empty string that does
  not begin with \<^verbatim>\<open>$\<close>, after \<^verbatim>\<open>register(contribution)\<close> has completed
  \<^verbatim>\<open>get(name)\<close> returns a matcher whose name is the contribution's name. For every
  non-empty name, also one that begins with \<^verbatim>\<open>$\<close>, \<^verbatim>\<open>get("$" + name)\<close> returns it.
\<close>

theorem register_then_get:
  assumes "ProblemMatcherContribution.name c = Some n" and "n \<noteq> []"
  shows "(\<not> startsWith n ''$'' \<longrightarrow>
            (\<exists>m. get (register cm pr c s) n = Some m \<and> ProblemMatcher.name m = Some n)) \<and>
         (\<exists>m. get (register cm pr c s) (CHR ''$'' # n) = Some m \<and> ProblemMatcher.name m = Some n)"
  using assms by (simp add: get_plain get_dollar register_named)

text \<open>The contribution \<^verbatim>\<open>{ name: "foo" }\<close>, registered in the empty registry.\<close>

theorem register_then_get_witness:
  "\<exists>m. get (register common_spec noPatterns (contribution (Some ''foo'')) created) ''foo'' = Some m
       \<and> ProblemMatcher.name m = Some ''foo''"
  using register_then_get
    [of "contribution (Some ''foo'')" "''foo''" common_spec noPatterns created]
  by (simp add: contribution_def startsWith_def)

text \<open>
  The name \<^verbatim>\<open>$foo\<close> is not empty, and after \<^verbatim>\<open>register({ name: "$foo" })\<close> in the empty
  registry \<^verbatim>\<open>get("$foo")\<close> returns \<^verbatim>\<open>undefined\<close>: \<^verbatim>\<open>get\<close> looks under \<^verbatim>\<open>foo\<close>.
\<close>

theorem register_then_get_counterexample:
  "get (register common_spec noPatterns (contribution (Some ''$foo'')) created) ''$foo'' = None"
  by (simp add: get_def startsWith_def slice_def register_def falsy_def contribution_def
      created_def matchers_add)

text \<open>
  Claim C4. For every contribution whose name is empty or absent, \<^verbatim>\<open>register\<close> aborts
  without raising: it logs an error and changes nothing else, so \<^verbatim>\<open>getAll()\<close> returns
  the same sequence before and after the call. The call returns in the caller's turn:
  nothing is queued and nothing waits for the pattern registry.
\<close>

theorem register_unnamed:
  assumes "ProblemMatcherContribution.name c = None \<or> ProblemMatcherContribution.name c = Some ''''"
  shows "register cm pr c s =
           s\<lparr>console := console s @ [''Only named Problem Matchers can be registered.'']\<rparr> \<and>
         matchers (register cm pr c s) = matchers s \<and>
         readyPromise (register cm pr c s) = readyPromise s \<and>
         getAll (register cm pr c s) = getAll s \<and>
         register_call cm pr c w =
           w\<lparr>console := console w @ [''Only named Problem Matchers can be registered.'']\<rparr>"
  using assms by (auto simp: register_def register_call_def falsy_def getAll_def get_def)

text \<open>The contributions \<^verbatim>\<open>{}\<close> and \<^verbatim>\<open>{ name: "" }\<close> on the empty registry.\<close>

theorem register_unnamed_witness:
  "getAll (register common_spec noPatterns (contribution None) created) = getAll created \<and>
   getAll (register common_spec noPatterns (contribution (Some '''')) created) = getAll created \<and>
   console (register common_spec noPatterns (contribution None) created) =
     [''Only named Problem Matchers can be registered.'']"
proof -
  have a: "ProblemMatcherContribution.name (contribution None) = None \<or>
           ProblemMatcherContribution.name (contribution None) = Some ''''"
    by (simp add: contribution_def)
  have b: "ProblemMatcherContribution.name (contribution (Some '''')) = None \<or>
           ProblemMatcherContribution.name (contribution (Some '''')) = Some ''''"
    by (simp add: contribution_def)
  note absent = register_unnamed [OF a, of common_spec noPatterns created]
  note empty = register_unnamed [OF b, of common_spec noPatterns created]
  from absent have 1: "getAll (register common_spec noPatterns (contribution None) created) =
      getAll created"
    by blast
  from empty have 2: "getAll (register common_spec noPatterns (contribution (Some '''')) created) =
      getAll created"
    by blast
  from absent have "register common_spec noPatterns (contribution None) created =
      created\<lparr>console := console created @ [''Only named Problem Matchers can be registered.'']\<rparr>"
    by blast
  then have 3: "console (register common_spec noPatterns (contribution None) created) =
      [''Only named Problem Matchers can be registered.'']"
    by (simp add: created_def)
  from 1 2 3 show ?thesis
    by blast
qed

text \<open>
  Claim C5, as amended. \<^verbatim>\<open>get\<close> strips exactly one leading \<^verbatim>\<open>$\<close> from its argument
  before the lookup, so for every name \<^verbatim>\<open>foo\<close> that does not itself begin with \<^verbatim>\<open>$\<close>,
  \<^verbatim>\<open>get("$foo")\<close> and \<^verbatim>\<open>get("foo")\<close> return the same result, the registered matcher
  when \<^verbatim>\<open>foo\<close> is registered. \<^verbatim>\<open>get\<close> returns \<^verbatim>\<open>undefined\<close> when there is no entry
  under the normalized key, and it is total: it never raises.
\<close>

theorem get_strips_one_dollar:
  "get s (CHR ''$'' # n) = map_of (matchers s) n \<and>
   (\<not> startsWith n ''$'' \<longrightarrow> get s (CHR ''$'' # n) = get s n) \<and>
   (\<not> startsWith n ''$'' \<and> map_of (matchers s) n = Some m \<longrightarrow>
      get s (CHR ''$'' # n) = Some m \<and> get s n = Some m) \<and>
   (map_of (matchers s) (if startsWith k ''$'' then slice k 1 else k) = None \<longrightarrow> get s k = None)"
  by (simp add: get_dollar get_plain) (simp add: get_def)

text \<open>With \<^verbatim>\<open>foo\<close> registered: \<^verbatim>\<open>get("$foo")\<close>, \<^verbatim>\<open>get("foo")\<close> and \<^verbatim>\<open>get("bar")\<close>.\<close>

theorem get_strips_one_dollar_witness:
  "get (register common_spec noPatterns (contribution (Some ''foo'')) created) ''$foo'' =
     Some (getProblemMatcherFromContribution common_spec noPatterns (contribution (Some ''foo''))) \<and>
   get (register common_spec noPatterns (contribution (Some ''foo'')) created) ''foo'' =
     Some (getProblemMatcherFromContribution common_spec noPatterns (contribution (Some ''foo''))) \<and>
   get (register common_spec noPatterns (contribution (Some ''foo'')) created) ''bar'' = None"
  using get_strips_one_dollar
    [of "register common_spec noPatterns (contribution (Some ''foo'')) created" "''foo''"
        "getProblemMatcherFromContribution common_spec noPatterns (contribution (Some ''foo''))"
        "''bar''"]
    register_named [of "contribution (Some ''foo'')" "''foo''" common_spec noPatterns created]
  by (simp add: startsWith_def contribution_def register_def falsy_def matchers_add created_def)

text \<open>
  With the name \<^verbatim>\<open>$a\<close> registered, \<^verbatim>\<open>get("$$a")\<close> finds the matcher and \<^verbatim>\<open>get("$a")\<close>
  looks under \<^verbatim>\<open>a\<close>: the two results differ.
\<close>

theorem get_strips_one_dollar_counterexample:
  "map_of (matchers (register common_spec noPatterns (contribution (Some ''$a'')) created)) ''$a''
     \<noteq> None \<and>
   get (register common_spec noPatterns (contribution (Some ''$a'')) created) ''$$a'' \<noteq>
   get (register common_spec noPatterns (contribution (Some ''$a'')) created) ''$a''"
  by (simp add: get_def startsWith_def slice_def register_def falsy_def contribution_def
      created_def matchers_add)

section \<open>Re-registration\<close>

lemma keys_update_present:
  "k \<in> fst ` set al \<Longrightarrow> map fst (AList.update k v al) = map fst al"
  by (simp add: update_keys)

lemma length_update_present:
  "k \<in> fst ` set al \<Longrightarrow> length (AList.update k v al) = length al"
  using keys_update_present [of k al v] by (metis length_map)

text \<open>
  Claim C8. The name is the key of an entry: registering a contribution whose name is
  already a key overwrites that entry without a message. The keys and so the length of
  \<^verbatim>\<open>getAll()\<close> are unchanged, the entry under the name is the new contribution's
  resolved matcher, and every other entry is as before. Nothing is written to the
  console, neither by the call nor by the time the promise is fulfilled, and
  \<open>readyPromise\<close> is untouched.
\<close>

theorem register_overwrites:
  assumes "ProblemMatcherContribution.name c = Some n" and "n \<noteq> []"
    and "n \<in> fst ` set (matchers s)"
  shows "length (getAll (register cm pr c s)) = length (getAll s) \<and>
         map_of (matchers (register cm pr c s)) n =
           Some (getProblemMatcherFromContribution cm pr c) \<and>
         map fst (matchers (register cm pr c s)) = map fst (matchers s) \<and>
         (\<forall>k. k \<noteq> n \<longrightarrow> map_of (matchers (register cm pr c s)) k = map_of (matchers s) k) \<and>
         (distinct (map fst (matchers s)) \<longrightarrow>
            distinct (map fst (matchers (register cm pr c s)))) \<and>
         console (register cm pr c s) = console s \<and>
         readyPromise (register cm pr c s) = readyPromise s \<and>
         console (register_call cm pr c w) = console w"
proof -
  have "console (register_call cm pr c w) = console w"
    using assms(1,2)
    by (simp add: register_call_def falsy_def onReady_then_def
        split: option.splits PatternContribution.splits)
  with assms show ?thesis
    by (simp add: length_getAll register_def falsy_def matchers_add update_conv'
        length_update_present keys_update_present)
qed

text \<open>
  \<^verbatim>\<open>{ name: "x" }\<close> and then \<^verbatim>\<open>{ name: "x", applyTo: "openDocuments" }\<close>: one entry
  before and after, its \<open>applyTo\<close> updated, the console empty.
\<close>

theorem register_overwrites_witness:
  "length (getAll (register common_spec noPatterns
              ((contribution (Some ''x''))\<lparr>ProblemMatcherContribution.applyTo := Some ''openDocuments''\<rparr>)
              (register common_spec noPatterns (contribution (Some ''x'')) created))) =
   length (getAll (register common_spec noPatterns (contribution (Some ''x'')) created)) \<and>
   map_option applyTo
     (get (register common_spec noPatterns (contribution (Some ''x'')) created) ''x'') =
     Some allDocuments \<and>
   map_option applyTo
     (get (register common_spec noPatterns
              ((contribution (Some ''x''))\<lparr>ProblemMatcherContribution.applyTo := Some ''openDocuments''\<rparr>)
              (register common_spec noPatterns (contribution (Some ''x'')) created)) ''x'') =
     Some openDocuments \<and>
   console (register common_spec noPatterns
              ((contribution (Some ''x''))\<lparr>ProblemMatcherContribution.applyTo := Some ''openDocuments''\<rparr>)
              (register common_spec noPatterns (contribution (Some ''x'')) created)) = []"
proof -
  let ?c = "(contribution (Some ''x''))\<lparr>ProblemMatcherContribution.applyTo := Some ''openDocuments''\<rparr>"
  let ?s = "register common_spec noPatterns (contribution (Some ''x'')) created"
  have n: "ProblemMatcherContribution.name ?c = Some ''x''"
    by (simp add: contribution_def)
  have k: "''x'' \<in> fst ` set (matchers ?s)"
    by (simp add: register_def falsy_def contribution_def matchers_add created_def)
  note ow = register_overwrites [OF n _ k, of common_spec noPatterns]
  from ow have 1: "length (getAll (register common_spec noPatterns ?c ?s)) = length (getAll ?s)"
    by simp
  from ow have "console (register common_spec noPatterns ?c ?s) = console ?s"
    by simp
  also have "console ?s = []"
    by (simp add: register_def falsy_def contribution_def created_def)
  finally have 4: "console (register common_spec noPatterns ?c ?s) = []" .
  from ow have "map_of (matchers (register common_spec noPatterns ?c ?s)) ''x'' =
      Some (getProblemMatcherFromContribution common_spec noPatterns ?c)"
    by simp
  then have 3: "map_option applyTo (get (register common_spec noPatterns ?c ?s) ''x'') =
      Some openDocuments"
    by (simp add: get_def startsWith_def getProblemMatcherFromContribution_def Let_def
        common_spec_def ApplyToKind_fromString_spec_def contribution_def split: prod.splits)
  have 2: "map_option applyTo (get ?s ''x'') = Some allDocuments"
    by (simp add: get_def startsWith_def register_def falsy_def matchers_add created_def
        getProblemMatcherFromContribution_def Let_def common_spec_def
        ApplyToKind_fromString_spec_def contribution_def split: prod.splits)
  from 1 2 3 4 show ?thesis
    by blast
qed

section \<open>Keys that begin with the sigil\<close>

lemma named_lookup:
  "named s \<Longrightarrow> map_of (matchers s) k = Some m \<Longrightarrow> ProblemMatcher.name m = Some k"
  by (auto simp: named_def list_all_iff dest: map_of_SomeD)

text \<open>
  Claim C9, as amended. Let a matcher be stored under a key \<open>k\<close> that begins with
  \<^verbatim>\<open>$\<close>, in a registry whose matchers carry their keys as names. \<^verbatim>\<open>getAll\<close> looks
  \<open>k\<close> up through \<^verbatim>\<open>get\<close>, which strips one \<^verbatim>\<open>$\<close>: the element \<^verbatim>\<open>getAll()\<close> returns
  for \<open>k\<close> is whatever is stored under the stripped name, never that matcher, and it is
  \<^verbatim>\<open>undefined\<close> when nothing is stored there. The matcher itself is an element of
  \<^verbatim>\<open>getAll()\<close> exactly when the key \<^verbatim>\<open>"$" + k\<close> is stored too.
\<close>

theorem getAll_dollar_key:
  assumes "named s" and "map_of (matchers s) k = Some m" and "startsWith k ''$''"
  shows "(\<forall>i < length (getAll s). Object_keys (matchers s) ! i = k \<longrightarrow>
            getAll s ! i = map_of (matchers s) (slice k 1) \<and> getAll s ! i \<noteq> Some m) \<and>
         k \<in> set (Object_keys (matchers s)) \<and>
         (map_of (matchers s) (slice k 1) = None \<longrightarrow> None \<in> set (getAll s)) \<and>
         (Some m \<in> set (getAll s) \<longleftrightarrow> CHR ''$'' # k \<in> fst ` set (matchers s))"
proof -
  from assms(3) obtain r where r: "k = CHR ''$'' # r"
    by (auto simp: startsWith_dollar)
  have nm: "ProblemMatcher.name m = Some k"
    using assms(1,2) by (rule named_lookup)
  have gk: "get s k = map_of (matchers s) (slice k 1)"
    using assms(3) by (simp add: get_def)
  have ne: "get s k \<noteq> Some m"
  proof
    assume "get s k = Some m"
    then have "map_of (matchers s) r = Some m"
      by (simp add: r get_dollar)
    with assms(1) have "ProblemMatcher.name m = Some r"
      by (rule named_lookup)
    with nm r show False
      by simp
  qed
  have key: "k \<in> set (Object_keys (matchers s))"
    using assms(2) by (metis set_Object_keys map_of_eq_None_iff option.distinct(1))
  have pos: "\<forall>i < length (getAll s). Object_keys (matchers s) ! i = k \<longrightarrow>
      getAll s ! i = map_of (matchers s) (slice k 1) \<and> getAll s ! i \<noteq> Some m"
    using gk ne by (auto simp: getAll_def)
  have undef: "map_of (matchers s) (slice k 1) = None \<longrightarrow> None \<in> set (getAll s)"
    using key gk unfolding getAll_def by force
  have mem: "Some m \<in> set (getAll s) \<longleftrightarrow> CHR ''$'' # k \<in> fst ` set (matchers s)"
  proof
    assume "Some m \<in> set (getAll s)"
    then have "Some m \<in> get s ` set (Object_keys (matchers s))"
      by (simp add: getAll_def)
    then obtain k' where "k' \<in> set (Object_keys (matchers s))" and g: "get s k' = Some m"
      by (metis imageE)
    then have k': "k' \<in> fst ` set (matchers s)"
      by (simp add: set_Object_keys)
    show "CHR ''$'' # k \<in> fst ` set (matchers s)"
    proof (cases "startsWith k' ''$''")
      case True
      then obtain r' where r': "k' = CHR ''$'' # r'"
        by (auto simp: startsWith_dollar)
      with g have "map_of (matchers s) r' = Some m"
        by (simp add: get_dollar)
      with assms(1) have "ProblemMatcher.name m = Some r'"
        by (rule named_lookup)
      with nm have "r' = k"
        by simp
      with r' k' show ?thesis
        by simp
    next
      case False
      with g have "map_of (matchers s) k' = Some m"
        by (simp add: get_plain)
      with assms(1) have "ProblemMatcher.name m = Some k'"
        by (rule named_lookup)
      with nm have "k' = k"
        by simp
      with False assms(3) show ?thesis
        by simp
    qed
  next
    assume "CHR ''$'' # k \<in> fst ` set (matchers s)"
    then have "CHR ''$'' # k \<in> set (Object_keys (matchers s))"
      by (simp add: set_Object_keys)
    moreover have "get s (CHR ''$'' # k) = Some m"
      using assms(2) by (simp add: get_dollar)
    ultimately show "Some m \<in> set (getAll s)"
      unfolding getAll_def by force
  qed
  from pos key undef mem show ?thesis
    by blast
qed

text \<open>After \<^verbatim>\<open>register({ name: "$foo" })\<close> alone, \<^verbatim>\<open>getAll()\<close> is \<^verbatim>\<open>[undefined]\<close>.\<close>

theorem getAll_dollar_key_witness:
  "getAll (register common_spec noPatterns (contribution (Some ''$foo'')) created) = [None]"
proof -
  let ?s = "register common_spec noPatterns (contribution (Some ''$foo'')) created"
  let ?m = "getProblemMatcherFromContribution common_spec noPatterns (contribution (Some ''$foo''))"
  have ms: "matchers ?s = [(''$foo'', ?m)]"
    by (simp add: register_def falsy_def contribution_def matchers_add created_def)
  have a: "named ?s"
    unfolding named_def ms by (simp add: contribution_def)
  have b: "map_of (matchers ?s) ''$foo'' = Some ?m"
    unfolding ms by simp
  have c: "startsWith ''$foo'' ''$''"
    by (simp add: startsWith_def)
  have ks: "Object_keys (matchers ?s) = [''$foo'']"
    unfolding ms by (simp add: Object_keys_def array_index_def is_digit_def)
  have len: "length (getAll ?s) = 1"
    unfolding length_getAll ms by simp
  from getAll_dollar_key [OF a b c] len ks have "getAll ?s ! 0 = map_of (matchers ?s) (slice ''$foo'' 1)"
    by simp
  then have "getAll ?s ! 0 = None"
    unfolding ms by (simp add: slice_def)
  with len show ?thesis
    by (cases "getAll ?s") auto
qed

text \<open>
  After \<^verbatim>\<open>register({ name: "$foo" })\<close> and \<^verbatim>\<open>register({ name: "$$foo" })\<close> the matcher
  registered as \<^verbatim>\<open>$foo\<close> is an element of \<^verbatim>\<open>getAll()\<close>: it is what \<^verbatim>\<open>get("$$foo")\<close>
  returns.
\<close>

theorem getAll_dollar_key_counterexample:
  "map_of (matchers (register common_spec noPatterns (contribution (Some ''$$foo''))
       (register common_spec noPatterns (contribution (Some ''$foo'')) created))) ''$foo'' =
     Some (getProblemMatcherFromContribution common_spec noPatterns (contribution (Some ''$foo''))) \<and>
   Some (getProblemMatcherFromContribution common_spec noPatterns (contribution (Some ''$foo'')))
     \<in> set (getAll (register common_spec noPatterns (contribution (Some ''$$foo''))
       (register common_spec noPatterns (contribution (Some ''$foo'')) created)))"
proof -
  let ?m = "getProblemMatcherFromContribution common_spec noPatterns (contribution (Some ''$foo''))"
  let ?m' = "getProblemMatcherFromContribution common_spec noPatterns (contribution (Some ''$$foo''))"
  let ?s = "register common_spec noPatterns (contribution (Some ''$$foo''))
       (register common_spec noPatterns (contribution (Some ''$foo'')) created)"
  have ms: "matchers ?s = [(''$foo'', ?m), (''$$foo'', ?m')]"
    by (simp add: register_def falsy_def contribution_def matchers_add created_def)
  have ks: "Object_keys (matchers ?s) = [''$foo'', ''$$foo'']"
    by (simp add: ms Object_keys_def array_index_def is_digit_def)
  have "getAll ?s = map (get ?s) [''$foo'', ''$$foo'']"
    by (simp only: getAll_def ks)
  then have "getAll ?s = [None, Some ?m]"
    by (simp add: get_def ms startsWith_def slice_def)
  moreover have "map_of (matchers ?s) ''$foo'' = Some ?m"
    unfolding ms by simp
  ultimately show ?thesis
    by simp
qed

section \<open>Resolution of a contribution\<close>

lemma resolved_fileLocation:
  "fileLocation (getProblemMatcherFromContribution cm pr c) =
     fst (getFileLocationKindAndPrefix cm c) \<and>
   filePrefix (getProblemMatcherFromContribution cm pr c) =
     Some (snd (getFileLocationKindAndPrefix cm c))"
  by (simp add: getProblemMatcherFromContribution_def Let_def split: prod.splits)

text \<open>
  Claim C2. Resolving \<^verbatim>\<open>contribution.fileLocation\<close>: absent yields \<^verbatim>\<open>relative\<close> with the
  prefix \<^verbatim>\<open>${workspaceFolder}\<close>; an array of one element that parses to \<^verbatim>\<open>absolute\<close>
  yields \<^verbatim>\<open>absolute\<close>; an array of two elements, the first parsing to \<^verbatim>\<open>relative\<close>
  and the second a non-empty string, yields \<^verbatim>\<open>relative\<close> with the second element as
  prefix; every other array (the empty one, \<^verbatim>\<open>["relative"]\<close> alone, longer ones) is
  ignored without a message and yields the default. The parser is any function, so
  \<^verbatim>\<open>["absolute"]\<close> is the case of a parser that reads that token as \<^verbatim>\<open>absolute\<close>.
\<close>

theorem fileLocation_cases:
  "(ProblemMatcherContribution.fileLocation c = None \<longrightarrow>
      getFileLocationKindAndPrefix cm c = (Relative, ''${workspaceFolder}'')) \<and>
   (ProblemMatcherContribution.fileLocation c = Some (Tokens [a]) \<and>
    FileLocationKind_fromString cm a = Some Absolute \<longrightarrow>
      fst (getFileLocationKindAndPrefix cm c) = Absolute) \<and>
   (ProblemMatcherContribution.fileLocation c = Some (Tokens [a, b]) \<and>
    FileLocationKind_fromString cm a = Some Relative \<and> b \<noteq> [] \<longrightarrow>
      getFileLocationKindAndPrefix cm c = (Relative, b)) \<and>
   (ProblemMatcherContribution.fileLocation c = Some (Tokens arr) \<and>
    (\<forall>x. arr = [x] \<longrightarrow> FileLocationKind_fromString cm x \<noteq> Some Absolute) \<and>
    (\<forall>x y. arr = [x, y] \<longrightarrow> FileLocationKind_fromString cm x \<noteq> Some Relative \<or> y = []) \<longrightarrow>
      getFileLocationKindAndPrefix cm c = (Relative, ''${workspaceFolder}''))"
proof -
  have 4: "getFileLocationKindAndPrefix cm c = (Relative, ''${workspaceFolder}'')"
    if "ProblemMatcherContribution.fileLocation c = Some (Tokens arr)"
      and "\<forall>x. arr = [x] \<longrightarrow> FileLocationKind_fromString cm x \<noteq> Some Absolute"
      and "\<forall>x y. arr = [x, y] \<longrightarrow> FileLocationKind_fromString cm x \<noteq> Some Relative \<or> y = []"
  proof (cases arr)
    case Nil
    with that show ?thesis by (simp add: getFileLocationKindAndPrefix_def)
  next
    case (Cons x xs)
    show ?thesis
    proof (cases xs)
      case Nil
      with Cons that show ?thesis by (simp add: getFileLocationKindAndPrefix_def)
    next
      case (Cons y ys)
      with \<open>arr = x # xs\<close> that show ?thesis
        by (cases ys) (auto simp: getFileLocationKindAndPrefix_def)
    qed
  qed
  show ?thesis
    using 4 by (simp add: getFileLocationKindAndPrefix_def)
qed

text \<open>
  With the tokens of the spec: absent, \<^verbatim>\<open>["absolute"]\<close>, \<^verbatim>\<open>["relative", "/x"]\<close> and
  \<^verbatim>\<open>["relative"]\<close>.
\<close>

theorem fileLocation_cases_witness:
  "getFileLocationKindAndPrefix common_spec (contribution (Some ''x'')) =
     (Relative, ''${workspaceFolder}'') \<and>
   fst (getFileLocationKindAndPrefix common_spec
     ((contribution (Some ''x''))\<lparr>ProblemMatcherContribution.fileLocation :=
        Some (Tokens [''absolute''])\<rparr>)) = Absolute \<and>
   getFileLocationKindAndPrefix common_spec
     ((contribution (Some ''x''))\<lparr>ProblemMatcherContribution.fileLocation :=
        Some (Tokens [''relative'', ''/x''])\<rparr>) = (Relative, ''/x'') \<and>
   getFileLocationKindAndPrefix common_spec
     ((contribution (Some ''x''))\<lparr>ProblemMatcherContribution.fileLocation :=
        Some (Tokens [''relative''])\<rparr>) = (Relative, ''${workspaceFolder}'')"
proof -
  let ?cm = "common_spec :: (nat, nat, unit, unit) common"
  let ?c = "contribution (Some ''x'')"
  have p: "FileLocationKind_fromString ?cm = FileLocationKind_fromString_spec"
    by (simp add: common_spec_def)
  have 1: "getFileLocationKindAndPrefix ?cm ?c = (Relative, ''${workspaceFolder}'')"
    using fileLocation_cases [where c = ?c and cm = ?cm]
    by (simp add: contribution_def)
  have 2: "fst (getFileLocationKindAndPrefix ?cm
      (?c\<lparr>ProblemMatcherContribution.fileLocation := Some (Tokens [''absolute''])\<rparr>)) = Absolute"
    using fileLocation_cases
      [where c = "?c\<lparr>ProblemMatcherContribution.fileLocation := Some (Tokens [''absolute''])\<rparr>"
         and cm = ?cm and a = "''absolute''"]
    by (simp add: p FileLocationKind_fromString_spec_def)
  have 3: "getFileLocationKindAndPrefix ?cm
      (?c\<lparr>ProblemMatcherContribution.fileLocation := Some (Tokens [''relative'', ''/x''])\<rparr>) =
      (Relative, ''/x'')"
    using fileLocation_cases
      [where c = "?c\<lparr>ProblemMatcherContribution.fileLocation :=
                     Some (Tokens [''relative'', ''/x''])\<rparr>"
         and cm = ?cm and a = "''relative''" and b = "''/x''"]
    by (simp add: p FileLocationKind_fromString_spec_def)
  have 4: "getFileLocationKindAndPrefix ?cm
      (?c\<lparr>ProblemMatcherContribution.fileLocation := Some (Tokens [''relative''])\<rparr>) =
      (Relative, ''${workspaceFolder}'')"
    using fileLocation_cases
      [where c = "?c\<lparr>ProblemMatcherContribution.fileLocation := Some (Tokens [''relative''])\<rparr>"
         and cm = ?cm and arr = "[''relative'']"]
    by (simp add: p FileLocationKind_fromString_spec_def)
  from 1 2 3 4 show ?thesis
    by blast
qed

text \<open>
  Claim C6. Resolution parses \<^verbatim>\<open>contribution.applyTo\<close> with the enum's parser. The
  resolved matcher's \<open>applyTo\<close> is \<^verbatim>\<open>allDocuments\<close> whenever the parse yields no kind:
  for a string that is not a known token, and for an absent value, which the parser is
  handed as it is. It is the parsed kind whenever the parse yields a truthy one, and
  \<^verbatim>\<open>allDocuments\<close> for a falsy one; so where no kind other than \<^verbatim>\<open>allDocuments\<close> is
  falsy, as in a numeric enum that begins with it, it is the parsed kind in every case.
\<close>

theorem applyTo_default:
  "(ApplyToKind_fromString cm (ProblemMatcherContribution.applyTo c) = None \<longrightarrow>
      applyTo (getProblemMatcherFromContribution cm pr c) = allDocuments) \<and>
   (ApplyToKind_fromString cm (ProblemMatcherContribution.applyTo c) = Some k \<and>
    ApplyToKind_truthy cm k \<longrightarrow>
      applyTo (getProblemMatcherFromContribution cm pr c) = k) \<and>
   (ApplyToKind_fromString cm (ProblemMatcherContribution.applyTo c) = Some k \<and>
    \<not> ApplyToKind_truthy cm k \<longrightarrow>
      applyTo (getProblemMatcherFromContribution cm pr c) = allDocuments) \<and>
   (ApplyToKind_fromString cm (ProblemMatcherContribution.applyTo c) = Some k \<and>
    (\<forall>k'. \<not> ApplyToKind_truthy cm k' \<longrightarrow> k' = allDocuments) \<longrightarrow>
      applyTo (getProblemMatcherFromContribution cm pr c) = k)"
  by (auto simp: getProblemMatcherFromContribution_def Let_def split: prod.splits)

text \<open>
  With the tokens of the spec: \<^verbatim>\<open>applyTo\<close> absent, \<^verbatim>\<open>"bogus"\<close> and \<^verbatim>\<open>"openDocuments"\<close>
  where every kind is truthy; \<^verbatim>\<open>"allDocuments"\<close> and \<^verbatim>\<open>"closedDocuments"\<close> where
  \<^verbatim>\<open>allDocuments\<close> is falsy.
\<close>

theorem applyTo_default_witness:
  "applyTo (getProblemMatcherFromContribution common_spec noPatterns (contribution (Some ''x''))) =
     allDocuments \<and>
   applyTo (getProblemMatcherFromContribution common_spec noPatterns
     ((contribution (Some ''x''))\<lparr>ProblemMatcherContribution.applyTo := Some ''bogus''\<rparr>)) =
     allDocuments \<and>
   applyTo (getProblemMatcherFromContribution common_spec noPatterns
     ((contribution (Some ''x''))\<lparr>ProblemMatcherContribution.applyTo :=
        Some ''openDocuments''\<rparr>)) = openDocuments \<and>
   applyTo (getProblemMatcherFromContribution common_numeric noPatterns
     ((contribution (Some ''x''))\<lparr>ProblemMatcherContribution.applyTo :=
        Some ''allDocuments''\<rparr>)) = allDocuments \<and>
   applyTo (getProblemMatcherFromContribution common_numeric noPatterns
     ((contribution (Some ''x''))\<lparr>ProblemMatcherContribution.applyTo :=
        Some ''closedDocuments''\<rparr>)) = closedDocuments"
proof -
  let ?cm = "common_spec :: (nat, nat, unit, unit) common"
  let ?cn = "common_numeric :: (nat, nat, unit, unit) common"
  let ?c = "contribution (Some ''x'')"
  let ?a = "\<lambda>t. ?c\<lparr>ProblemMatcherContribution.applyTo := Some t\<rparr>"
  have a: "ApplyToKind_fromString ?cm (ProblemMatcherContribution.applyTo ?c) = None"
    by (simp add: common_spec_def contribution_def ApplyToKind_fromString_spec_def)
  have b: "ApplyToKind_fromString ?cm (ProblemMatcherContribution.applyTo (?a ''bogus'')) = None"
    by (simp add: common_spec_def ApplyToKind_fromString_spec_def)
  have o: "ApplyToKind_fromString ?cm (ProblemMatcherContribution.applyTo (?a ''openDocuments'')) =
      Some openDocuments \<and> ApplyToKind_truthy ?cm openDocuments"
    by (simp add: common_spec_def ApplyToKind_fromString_spec_def)
  have d: "ApplyToKind_fromString ?cn (ProblemMatcherContribution.applyTo (?a ''allDocuments'')) =
      Some allDocuments \<and> \<not> ApplyToKind_truthy ?cn allDocuments"
    by (simp add: common_numeric_def ApplyToKind_fromString_spec_def)
  have e: "ApplyToKind_fromString ?cn (ProblemMatcherContribution.applyTo (?a ''closedDocuments'')) =
      Some closedDocuments \<and> (\<forall>k'. \<not> ApplyToKind_truthy ?cn k' \<longrightarrow> k' = allDocuments)"
    by (simp add: common_numeric_def ApplyToKind_fromString_spec_def)
  from a applyTo_default [where cm = ?cm and c = ?c and pr = noPatterns]
  have 1: "applyTo (getProblemMatcherFromContribution ?cm noPatterns ?c) = allDocuments"
    by blast
  from b applyTo_default [where cm = ?cm and c = "?a ''bogus''" and pr = noPatterns]
  have 2: "applyTo (getProblemMatcherFromContribution ?cm noPatterns (?a ''bogus'')) =
      allDocuments"
    by blast
  from o applyTo_default [where cm = ?cm and c = "?a ''openDocuments''" and pr = noPatterns
      and k = openDocuments]
  have 3: "applyTo (getProblemMatcherFromContribution ?cm noPatterns (?a ''openDocuments'')) =
      openDocuments"
    by blast
  from d applyTo_default [where cm = ?cn and c = "?a ''allDocuments''" and pr = noPatterns
      and k = allDocuments]
  have 4: "applyTo (getProblemMatcherFromContribution ?cn noPatterns (?a ''allDocuments'')) =
      allDocuments"
    by blast
  from e applyTo_default [where cm = ?cn and c = "?a ''closedDocuments''" and pr = noPatterns
      and k = closedDocuments]
  have 5: "applyTo (getProblemMatcherFromContribution ?cn noPatterns (?a ''closedDocuments'')) =
      closedDocuments"
    by blast
  from 1 2 3 4 5 show ?thesis
    by blast
qed

text \<open>
  Claim C3, as amended. When \<^verbatim>\<open>contribution.pattern\<close> is a non-empty string, it is a
  name looked up in the pattern registry after awaiting its readiness: the call of
  \<^verbatim>\<open>register\<close> waits for the readiness promise, and the lookup reads the pattern
  registry as it is when the continuation runs. If the lookup yields a sequence, the
  resolved matcher's patterns are that sequence, of the same length and order; if it
  yields a single pattern, the patterns are that pattern alone; if the name has no
  registration, the patterns are empty, and nothing is raised. An empty string is not
  looked up and readiness is not awaited: the patterns are empty whatever the pattern
  registry holds, and the call queues the addition of the matcher at once.
\<close>

theorem pattern_by_name:
  assumes "ProblemMatcherContribution.pattern c = Some (PatternName n)"
  shows "(n \<noteq> [] \<and> pr n = Some (Multi ps) \<longrightarrow>
            pattern (getProblemMatcherFromContribution cm pr c) = Some (Multi ps)) \<and>
         (n \<noteq> [] \<and> pr n = Some (Single p) \<longrightarrow>
            pattern (getProblemMatcherFromContribution cm pr c) = Some (Multi [p])) \<and>
         (n \<noteq> [] \<and> pr n = None \<longrightarrow>
            pattern (getProblemMatcherFromContribution cm pr c) = Some (Multi [])) \<and>
         (n = [] \<longrightarrow> pattern (getProblemMatcherFromContribution cm pr c) = Some (Multi [])) \<and>
         (n \<noteq> [] \<and> \<not> falsy (ProblemMatcherContribution.name c) \<longrightarrow>
            register_call cm pr' c w = onReady_then (ResolvePattern c) w) \<and>
         (n \<noteq> [] \<and> \<not> falsy (ProblemMatcherContribution.name c) \<and> \<not> patternsReady w \<longrightarrow>
            reactions (register_call cm pr' c w) = reactions w @ [ResolvePattern c] \<and>
            jobs (register_call cm pr' c w) = jobs w) \<and>
         (n = [] \<and> \<not> falsy (ProblemMatcherContribution.name c) \<longrightarrow>
            register_call cm pr' c w =
              w\<lparr>jobs := jobs w @
                   [AddMatcher (getProblemMatcherFromContribution cm pr' c)]\<rparr> \<and>
            reactions (register_call cm pr' c w) = reactions w) \<and>
         run_job cm pr (ResolvePattern c) w =
           w\<lparr>jobs := jobs w @ [AddMatcher (getProblemMatcherFromContribution cm pr c)]\<rparr>"
  using assms
  by (simp add: getProblemMatcherFromContribution_def Let_def register_call_def run_job_def
      onReady_then_def split: prod.splits)

text \<open>
  A pattern registry with three patterns under \<^verbatim>\<open>three\<close> and a single one under
  \<^verbatim>\<open>one\<close>; the calls of \<^verbatim>\<open>register\<close> are made before the pattern registry is ready.
\<close>

theorem pattern_by_name_witness:
  "pattern (getProblemMatcherFromContribution common_spec somePatterns
     ((contribution (Some ''x''))\<lparr>ProblemMatcherContribution.pattern :=
        Some (PatternName ''three'')\<rparr>)) = Some (Multi [1, 2, 3]) \<and>
   pattern (getProblemMatcherFromContribution common_spec somePatterns
     ((contribution (Some ''x''))\<lparr>ProblemMatcherContribution.pattern :=
        Some (PatternName ''one'')\<rparr>)) = Some (Multi [7]) \<and>
   pattern (getProblemMatcherFromContribution common_spec somePatterns
     ((contribution (Some ''x''))\<lparr>ProblemMatcherContribution.pattern :=
        Some (PatternName ''none'')\<rparr>)) = Some (Multi []) \<and>
   pattern (getProblemMatcherFromContribution common_spec somePatterns
     ((contribution (Some ''x''))\<lparr>ProblemMatcherContribution.pattern :=
        Some (PatternName '''')\<rparr>)) = Some (Multi []) \<and>
   reactions (register_call common_spec somePatterns
     ((contribution (Some ''x''))\<lparr>ProblemMatcherContribution.pattern :=
        Some (PatternName ''three'')\<rparr>) (init False)) =
     [InitThen,
      ResolvePattern ((contribution (Some ''x''))\<lparr>ProblemMatcherContribution.pattern :=
        Some (PatternName ''three'')\<rparr>)] \<and>
   jobs (register_call common_spec somePatterns
     ((contribution (Some ''x''))\<lparr>ProblemMatcherContribution.pattern :=
        Some (PatternName ''three'')\<rparr>) (init False)) = [] \<and>
   reactions (register_call common_spec somePatterns
     ((contribution (Some ''x''))\<lparr>ProblemMatcherContribution.pattern :=
        Some (PatternName '''')\<rparr>) (init False)) = [InitThen] \<and>
   jobs (register_call common_spec somePatterns
     ((contribution (Some ''x''))\<lparr>ProblemMatcherContribution.pattern :=
        Some (PatternName '''')\<rparr>) (init False)) =
     [AddMatcher (getProblemMatcherFromContribution common_spec somePatterns
        ((contribution (Some ''x''))\<lparr>ProblemMatcherContribution.pattern :=
           Some (PatternName '''')\<rparr>))]"
proof -
  let ?cm = "common_spec :: (nat, nat, unit, unit) common"
  let ?c = "\<lambda>n. (contribution (Some ''x''))\<lparr>ProblemMatcherContribution.pattern :=
        Some (PatternName n)\<rparr>"
  have n: "ProblemMatcherContribution.pattern (?c n) = Some (PatternName n)" for n
    by simp
  have 1: "pattern (getProblemMatcherFromContribution ?cm somePatterns (?c ''three'')) =
      Some (Multi [1, 2, 3])"
    using pattern_by_name [OF n, where n = "''three''" and pr = somePatterns and ps = "[1, 2, 3]"
        and cm = ?cm]
    by (simp add: somePatterns_def)
  have 2: "pattern (getProblemMatcherFromContribution ?cm somePatterns (?c ''one'')) =
      Some (Multi [7])"
    using pattern_by_name [OF n, where n = "''one''" and pr = somePatterns and p = 7 and cm = ?cm]
    by (simp add: somePatterns_def)
  have 3: "pattern (getProblemMatcherFromContribution ?cm somePatterns (?c ''none'')) =
      Some (Multi [])"
    using pattern_by_name [OF n, where n = "''none''" and pr = somePatterns and cm = ?cm]
    by (simp add: somePatterns_def)
  have 4: "pattern (getProblemMatcherFromContribution ?cm somePatterns (?c '''')) =
      Some (Multi [])"
    using pattern_by_name [OF n, where n = "''''" and pr = somePatterns and cm = ?cm]
    by simp
  have f: "\<not> falsy (ProblemMatcherContribution.name (?c ''three''))"
    by (simp add: falsy_def contribution_def)
  have "register_call ?cm somePatterns (?c ''three'') (init False) =
      onReady_then (ResolvePattern (?c ''three'')) (init False)"
    using f pattern_by_name [OF n, where n = "''three''" and cm = ?cm and pr' = somePatterns
        and w = "init False"]
    by simp
  then have 5: "reactions (register_call ?cm somePatterns (?c ''three'') (init False)) =
      [InitThen, ResolvePattern (?c ''three'')]"
    by (simp add: onReady_then_def init_def)
  let ?i = "init False :: (nat, unit, nat, unit) world"
  have i: "\<not> patternsReady ?i" "jobs ?i = []" "reactions ?i = [InitThen]"
    by (simp_all add: init_def onReady_then_def)
  have ne: "''three'' \<noteq> []"
    by simp
  note waits = pattern_by_name [OF n, where n = "''three''" and cm = ?cm and pr = somePatterns
      and ps = "[]" and p = 0 and pr' = somePatterns and w = ?i,
      THEN conjunct2, THEN conjunct2, THEN conjunct2, THEN conjunct2, THEN conjunct2,
      THEN conjunct1, THEN mp]
  have "reactions (register_call ?cm somePatterns (?c ''three'') ?i) =
        reactions ?i @ [ResolvePattern (?c ''three'')] \<and>
      jobs (register_call ?cm somePatterns (?c ''three'') ?i) = jobs ?i"
    by (rule waits) (intro conjI ne f i(1))
  then have "jobs (register_call ?cm somePatterns (?c ''three'') ?i) = jobs ?i"
    by (rule conjunct2)
  with i(2) have 6: "jobs (register_call ?cm somePatterns (?c ''three'') ?i) = []"
    by simp
  have g: "\<not> falsy (ProblemMatcherContribution.name (?c ''''))"
    by (simp add: falsy_def contribution_def)
  note at_once = pattern_by_name [OF n, where n = "''''" and cm = ?cm and pr = somePatterns
      and ps = "[]" and p = 0 and pr' = somePatterns and w = ?i,
      THEN conjunct2, THEN conjunct2, THEN conjunct2, THEN conjunct2, THEN conjunct2,
      THEN conjunct2, THEN conjunct1, THEN mp]
  have er: "register_call ?cm somePatterns (?c '''') ?i =
        ?i\<lparr>jobs := jobs ?i @
           [AddMatcher (getProblemMatcherFromContribution ?cm somePatterns (?c ''''))]\<rparr> \<and>
      reactions (register_call ?cm somePatterns (?c '''') ?i) = reactions ?i"
    by (rule at_once) (intro conjI refl g)
  from er have e: "register_call ?cm somePatterns (?c '''') ?i =
        ?i\<lparr>jobs := jobs ?i @
           [AddMatcher (getProblemMatcherFromContribution ?cm somePatterns (?c ''''))]\<rparr>"
    by (rule conjunct1)
  from er have r: "reactions (register_call ?cm somePatterns (?c '''') ?i) = reactions ?i"
    by (rule conjunct2)
  from r i(3) have 7: "reactions (register_call ?cm somePatterns (?c '''') ?i) = [InitThen]"
    by simp
  from e i(2) have 8: "jobs (register_call ?cm somePatterns (?c '''') ?i) =
      [AddMatcher (getProblemMatcherFromContribution ?cm somePatterns (?c ''''))]"
    by simp
  show ?thesis
    by (intro conjI) (rule 1 2 3 4 5 6 7 8)+
qed

text \<open>
  The pattern is the empty string. \<^verbatim>\<open>register({ name: "x", pattern: "" })\<close> is called
  while the pattern registry is not ready, and after one job the matcher is stored, the
  pattern registry still not being ready: readiness was not awaited. And where the
  lookup of the empty string yields a sequence of three patterns, the resolved matcher
  has no pattern: \<^verbatim>\<open>if (matcher.pattern)\<close> skips the lookup.
\<close>

theorem pattern_by_name_counterexample:
  "\<not> patternsReady (run common_spec
      [(emptyNamePatterns,
        Register ((contribution (Some ''x''))\<lparr>ProblemMatcherContribution.pattern :=
          Some (PatternName '''')\<rparr>)),
       (emptyNamePatterns, RunJob)] (init False)) \<and>
   map fst (matchers (run common_spec
      [(emptyNamePatterns,
        Register ((contribution (Some ''x''))\<lparr>ProblemMatcherContribution.pattern :=
          Some (PatternName '''')\<rparr>)),
       (emptyNamePatterns, RunJob)] (init False))) = [''x''] \<and>
   emptyNamePatterns '''' = Some (Multi [1, 2, 3]) \<and>
   pattern (getProblemMatcherFromContribution common_spec emptyNamePatterns
     ((contribution (Some ''x''))\<lparr>ProblemMatcherContribution.pattern :=
        Some (PatternName '''')\<rparr>)) = Some (Multi [])"
proof -
  let ?c = "(contribution (Some ''x''))\<lparr>ProblemMatcherContribution.pattern :=
        Some (PatternName '''')\<rparr>"
  let ?w = "run common_spec [(emptyNamePatterns, Register ?c), (emptyNamePatterns, RunJob)]
      (init False)"
  have 1: "\<not> patternsReady ?w"
    by (simp add: run_def step_def register_call_def falsy_def contribution_def run_job_def
        init_def onReady_then_def)
  have 2: "map fst (matchers ?w) = [''x'']"
    by (simp add: run_def step_def register_call_def falsy_def contribution_def run_job_def
        init_def onReady_then_def matchers_add)
  have 3: "emptyNamePatterns '''' = Some (Multi [1, 2, 3])"
    by (simp add: emptyNamePatterns_def)
  have 4: "pattern (getProblemMatcherFromContribution common_spec emptyNamePatterns ?c) =
      Some (Multi [])"
    by (simp add: getProblemMatcherFromContribution_def Let_def split: prod.splits)
  from 1 2 3 4 show ?thesis
    by blast
qed

section \<open>Seeding and readiness\<close>

subsection \<open>The default table\<close>

lemma default_names: "map ProblemMatcher.name (defaultMatchers pr) = map Some defaultNames"
  by (simp add: defaultMatchers_def defaultNames_def)

lemma default_names_plain: "\<forall>n \<in> set defaultNames. \<not> startsWith n ''$''"
  by (simp add: defaultNames_def startsWith_def)

lemma distinct_defaultNames: "distinct defaultNames"
  by (simp add: defaultNames_def)

lemma list_all_update:
  "list_all P al \<Longrightarrow> P (k, v) \<Longrightarrow> list_all P (AList.update k v al)"
  by (induction al) auto

lemma named_add:
  "named s \<Longrightarrow> ProblemMatcher.name m \<noteq> None \<Longrightarrow> named (add m s)"
  by (auto simp: named_def matchers_add intro: list_all_update)

lemma keys_add:
  "ProblemMatcher.name m = Some k \<Longrightarrow>
   fst ` set (matchers (add m s)) = insert k (fst ` set (matchers s))"
  by (simp add: matchers_add dom_update)

lemma lookup_add:
  "ProblemMatcher.name m = Some k \<Longrightarrow>
   map_of (matchers (add m s)) = (map_of (matchers s))(k \<mapsto> m)"
  by (simp add: matchers_add update_conv')

lemma foldl_add_fields:
  "readyPromise (foldl (\<lambda>s' m. add m s') s ms) = readyPromise s"
  "console (foldl (\<lambda>s' m. add m s') s ms) = console s"
  by (induction ms arbitrary: s) simp_all

lemma foldl_add_world:
  "jobs (foldl (\<lambda>s' m. add m s') w ms) = jobs w"
  "reactions (foldl (\<lambda>s' m. add m s') w ms) = reactions w"
  "patternsReady (foldl (\<lambda>s' m. add m s') w ms) = patternsReady w"
  by (induction ms arbitrary: w) simp_all

lemma foldl_add_named:
  "named s \<Longrightarrow> \<forall>m \<in> set ms. ProblemMatcher.name m \<noteq> None \<Longrightarrow>
   named (foldl (\<lambda>s' m. add m s') s ms)"
  by (induction ms arbitrary: s) (simp_all add: named_add)

lemma foldl_add_keys:
  "fst ` set (matchers s) \<subseteq> fst ` set (matchers (foldl (\<lambda>s' m. add m s') s ms))"
proof (induction ms arbitrary: s)
  case Nil
  show ?case by simp
next
  case (Cons m ms)
  have "fst ` set (matchers s) \<subseteq> fst ` set (matchers (add m s))"
    by (auto simp: matchers_add dom_update)
  also have "\<dots> \<subseteq> fst ` set (matchers (foldl (\<lambda>s' m. add m s') (add m s) ms))"
    by (rule Cons.IH)
  finally show ?case by simp
qed

lemma foldl_add_other:
  "\<forall>m \<in> set ms. ProblemMatcher.name m \<noteq> None \<and> ProblemMatcher.name m \<noteq> Some k \<Longrightarrow>
   map_of (matchers (foldl (\<lambda>s' m. add m s') s ms)) k = map_of (matchers s) k"
proof (induction ms arbitrary: s)
  case Nil
  show ?case by simp
next
  case (Cons m ms)
  then obtain k' where k': "ProblemMatcher.name m = Some k'" and "k' \<noteq> k"
    by auto
  then have "map_of (matchers (add m s)) k = map_of (matchers s) k"
    by (simp add: lookup_add)
  with Cons show ?case
    by simp
qed

lemma foldl_add_lookup:
  "distinct (map ProblemMatcher.name ms) \<Longrightarrow> \<forall>m \<in> set ms. ProblemMatcher.name m \<noteq> None \<Longrightarrow>
   m \<in> set ms \<Longrightarrow> ProblemMatcher.name m = Some k \<Longrightarrow>
   map_of (matchers (foldl (\<lambda>s' m. add m s') s ms)) k = Some m"
proof (induction ms arbitrary: s)
  case Nil
  then show ?case by simp
next
  case (Cons x xs)
  show ?case
  proof (cases "m \<in> set xs")
    case True
    with Cons show ?thesis by simp
  next
    case False
    with Cons.prems have mx: "m = x"
      by simp
    have "Some k \<notin> ProblemMatcher.name ` set xs"
      using Cons.prems(1,4) mx by simp
    then have "\<forall>m' \<in> set xs. ProblemMatcher.name m' \<noteq> Some k"
      by (metis imageI)
    with Cons.prems(2)
    have "\<forall>m' \<in> set xs. ProblemMatcher.name m' \<noteq> None \<and> ProblemMatcher.name m' \<noteq> Some k"
      by simp
    then have "map_of (matchers (foldl (\<lambda>s' m. add m s') (add x s) xs)) k =
        map_of (matchers (add x s)) k"
      by (rule foldl_add_other)
    also have "\<dots> = Some m"
      using Cons.prems(4) mx by (simp add: lookup_add)
    finally show ?thesis by simp
  qed
qed

lemma fillDefaults_lookup:
  fixes m :: "('p, 'w) ProblemMatcher"
  assumes "m \<in> set (defaultMatchers pr)"
  shows "\<exists>k. ProblemMatcher.name m = Some k \<and> \<not> startsWith k ''$'' \<and>
             map_of (matchers (fillDefaults pr s)) k = Some m"
proof -
  let ?ds = "defaultMatchers pr :: ('p, 'w) ProblemMatcher list"
  have names: "map ProblemMatcher.name ?ds = map Some defaultNames"
    by (rule default_names)
  have "ProblemMatcher.name m \<in> set (map ProblemMatcher.name ?ds)"
    using assms unfolding set_map by (rule imageI)
  then obtain k where k: "ProblemMatcher.name m = Some k" and kd: "k \<in> set defaultNames"
    unfolding names by auto
  have d: "distinct (map ProblemMatcher.name ?ds)"
    unfolding names by (simp add: distinct_map distinct_defaultNames)
  have n: "\<forall>m' \<in> set ?ds. ProblemMatcher.name m' \<noteq> None"
  proof
    fix m' assume "m' \<in> set ?ds"
    then have "ProblemMatcher.name m' \<in> set (map ProblemMatcher.name ?ds)"
      unfolding set_map by (rule imageI)
    then show "ProblemMatcher.name m' \<noteq> None"
      unfolding names by auto
  qed
  have "map_of (matchers (fillDefaults pr s)) k = Some m"
    unfolding fillDefaults_def using d n assms k by (rule foldl_add_lookup)
  with k kd default_names_plain show ?thesis
    by blast
qed

lemma fillDefaults_fields:
  "readyPromise (fillDefaults pr s) = readyPromise s"
  "console (fillDefaults pr s) = console s"
  by (simp_all add: fillDefaults_def foldl_add_fields)

lemma fillDefaults_world:
  "jobs (fillDefaults pr w) = jobs w"
  "reactions (fillDefaults pr w) = reactions w"
  "patternsReady (fillDefaults pr w) = patternsReady w"
  by (simp_all add: fillDefaults_def foldl_add_world)

lemma fillDefaults_named: "named s \<Longrightarrow> named (fillDefaults pr s)"
proof -
  assume a: "named s"
  let ?ds = "defaultMatchers pr :: ('a, 'b) ProblemMatcher list"
  have "\<forall>m \<in> set ?ds. ProblemMatcher.name m \<noteq> None"
  proof
    fix m assume "m \<in> set ?ds"
    then have "ProblemMatcher.name m \<in> set (map ProblemMatcher.name ?ds)"
      unfolding set_map by (rule imageI)
    then show "ProblemMatcher.name m \<noteq> None"
      unfolding default_names by auto
  qed
  with a show ?thesis
    unfolding fillDefaults_def by (rule foldl_add_named)
qed

lemma fillDefaults_keys:
  "fst ` set (matchers s) \<subseteq> fst ` set (matchers (fillDefaults pr s))"
  unfolding fillDefaults_def by (rule foldl_add_keys)

lemma fillDefaults_defaultNames:
  fixes s :: "('p, 'w, 'z) ProblemMatcherRegistry_scheme"
  shows "set defaultNames \<subseteq> fst ` set (matchers (fillDefaults pr s))"
proof
  fix n assume "n \<in> set defaultNames"
  let ?ds = "defaultMatchers pr :: ('p, 'w) ProblemMatcher list"
  from \<open>n \<in> set defaultNames\<close> have "Some n \<in> set (map ProblemMatcher.name ?ds)"
    unfolding default_names by simp
  then obtain m where m: "m \<in> set ?ds" and "ProblemMatcher.name m = Some n"
    by auto
  with fillDefaults_lookup [OF m, of s] have "map_of (matchers (fillDefaults pr s)) n = Some m"
    by auto
  then show "n \<in> fst ` set (matchers (fillDefaults pr s))"
    by (metis map_of_eq_None_iff option.distinct(1))
qed

lemma add_distinct:
  "distinct (map fst (matchers s)) \<Longrightarrow> distinct (map fst (matchers (add m s)))"
  by (simp add: matchers_add distinct_update)

lemma foldl_add_distinct:
  "distinct (map fst (matchers s)) \<Longrightarrow>
   distinct (map fst (matchers (foldl (\<lambda>s' m. add m s') s ms)))"
  by (induction ms arbitrary: s) (simp_all add: add_distinct)

lemma fillDefaults_distinct:
  "distinct (map fst (matchers s)) \<Longrightarrow> distinct (map fst (matchers (fillDefaults pr s)))"
  unfolding fillDefaults_def by (rule foldl_add_distinct)

lemma add_keys_mono: "fst ` set (matchers s) \<subseteq> fst ` set (matchers (add m s))"
  by (auto simp: matchers_add dom_update)

subsection \<open>An invariant of all histories\<close>

lemma consistent_init: "consistent (init ready)"
  by (simp add: consistent_def init_def onReady_then_def named_def queued_ok_def)

lemma consistent_ready:
  "consistent w \<Longrightarrow>
   consistent (if patternsReady w then w
               else w\<lparr>patternsReady := True, jobs := jobs w @ reactions w, reactions := []\<rparr>)"
  by (auto simp: consistent_def named_def)

lemma consistent_enqueue:
  "consistent w \<Longrightarrow> queued_ok j \<Longrightarrow> j \<noteq> InitThen \<Longrightarrow>
   consistent (w\<lparr>jobs := jobs w @ [j]\<rparr>)"
  by (auto simp: consistent_def named_def)

lemma consistent_onReady_then:
  "consistent w \<Longrightarrow> queued_ok j \<Longrightarrow> j \<noteq> InitThen \<Longrightarrow> consistent (onReady_then j w)"
  by (auto simp: consistent_def named_def onReady_then_def)

lemma consistent_console:
  "consistent w \<Longrightarrow> consistent (w\<lparr>console := c\<rparr>)"
  by (auto simp: consistent_def named_def)

lemma queued_ok_resolved:
  "\<not> falsy (ProblemMatcherContribution.name c) \<Longrightarrow>
   queued_ok (AddMatcher (getProblemMatcherFromContribution cm pr c))"
  by (auto simp: queued_ok_def falsy_def split: option.splits)

lemma consistent_register_call:
  assumes "consistent w"
  shows "consistent (register_call cm pr c w)"
proof (cases "falsy (ProblemMatcherContribution.name c)")
  case True
  with assms show ?thesis
    by (simp add: register_call_def consistent_console)
next
  case False
  then have q: "queued_ok (AddMatcher (getProblemMatcherFromContribution cm pr c))"
    by (rule queued_ok_resolved)
  from False have r: "queued_ok (ResolvePattern c)"
    by (simp add: queued_ok_def)
  have e: "consistent
      (w\<lparr>jobs := jobs w @ [AddMatcher (getProblemMatcherFromContribution cm pr c)]\<rparr>)"
    using assms q by (rule consistent_enqueue) simp
  have o: "consistent (onReady_then (ResolvePattern c) w)"
    using assms r by (rule consistent_onReady_then) simp
  from False e o show ?thesis
    by (simp add: register_call_def split: option.splits PatternContribution.splits)
qed

lemma consistent_add:
  assumes "consistent w" and "ProblemMatcher.name m \<noteq> None"
  shows "consistent (add m w)"
proof -
  have "named (add m w)"
    using assms by (simp add: consistent_def named_add)
  moreover have "distinct (map fst (matchers (add m w)))"
    using assms by (simp add: consistent_def add_distinct)
  moreover have "readyPromise w \<noteq> None \<longrightarrow> set defaultNames \<subseteq> fst ` set (matchers (add m w))"
    using assms(1) add_keys_mono [of w m] unfolding consistent_def by blast
  ultimately show ?thesis
    using assms(1) by (simp add: consistent_def)
qed

lemma consistent_run_job:
  assumes "consistent w" and "jobs w = j # js"
  shows "consistent (run_job cm pr j (w\<lparr>jobs := js\<rparr>))"
proof (cases j)
  case InitThen
  from assms InitThen have rest: "InitThen \<notin> set (reactions w)" "InitThen \<notin> set js"
    by (auto simp: consistent_def filter_empty_conv split: if_splits)
  with assms(1) have ready: "patternsReady w"
    unfolding consistent_def by blast
  from assms InitThen have pending: "readyPromise w = None"
    by (auto simp: consistent_def split: if_splits)
  have "named (fillDefaults pr (w\<lparr>jobs := js\<rparr>))"
    using assms(1) by (intro fillDefaults_named) (simp add: consistent_def named_def)
  moreover have "distinct (map fst (matchers (fillDefaults pr (w\<lparr>jobs := js\<rparr>))))"
    using assms(1) by (intro fillDefaults_distinct) (simp add: consistent_def)
  moreover have "set defaultNames \<subseteq> fst ` set (matchers (fillDefaults pr (w\<lparr>jobs := js\<rparr>)))"
    by (rule fillDefaults_defaultNames)
  moreover have "filter (\<lambda>j. j = InitThen) (reactions w) = []"
      "filter (\<lambda>j. j = InitThen) js = []"
    using rest by (auto simp: filter_empty_conv)
  moreover have "list_all queued_ok (reactions w)" "list_all queued_ok js"
    using assms by (simp_all add: consistent_def)
  ultimately show ?thesis
    using InitThen ready pending
    by (simp add: run_job_def consistent_def named_def fillDefaults_world)
next
  case (ResolvePattern c)
  with assms have ok: "\<not> falsy (ProblemMatcherContribution.name c)"
    by (simp add: consistent_def queued_ok_def)
  have w': "consistent (w\<lparr>jobs := js\<rparr>)"
    using assms ResolvePattern by (auto simp: consistent_def named_def)
  from w' queued_ok_resolved [OF ok]
  have "consistent ((w\<lparr>jobs := js\<rparr>)\<lparr>jobs := jobs (w\<lparr>jobs := js\<rparr>) @
      [AddMatcher (getProblemMatcherFromContribution cm pr c)]\<rparr>)"
    by (rule consistent_enqueue) simp
  with ResolvePattern show ?thesis
    by (simp add: run_job_def)
next
  case (AddMatcher m)
  with assms have ok: "ProblemMatcher.name m \<noteq> None"
    by (simp add: consistent_def queued_ok_def)
  have w': "consistent (w\<lparr>jobs := js\<rparr>)"
    using assms AddMatcher by (auto simp: consistent_def named_def)
  from w' ok have "consistent (add m (w\<lparr>jobs := js\<rparr>))"
    by (rule consistent_add)
  with AddMatcher show ?thesis
    by (simp add: run_job_def)
qed

lemma consistent_step: "consistent w \<Longrightarrow> consistent (step cm pr e w)"
  by (cases e)
    (auto simp: step_def consistent_ready consistent_register_call consistent_run_job
      split: list.splits)

lemma consistent_run: "consistent w \<Longrightarrow> consistent (run cm evs w)"
  unfolding run_def
  by (induction evs arbitrary: w) (auto simp: consistent_step)

lemma consistent_pending:
  assumes "consistent w"
  shows "seedingPending w \<longleftrightarrow> readyPromise w = None"
proof
  assume "seedingPending w"
  then have "filter (\<lambda>j. j = InitThen) (reactions w) \<noteq> [] \<or>
      filter (\<lambda>j. j = InitThen) (jobs w) \<noteq> []"
    by (auto simp: seedingPending_def filter_empty_conv)
  with assms show "readyPromise w = None"
    by (auto simp: consistent_def split: if_splits)
next
  assume "readyPromise w = None"
  with assms have "filter (\<lambda>j. j = InitThen) (reactions w) \<noteq> [] \<or>
      filter (\<lambda>j. j = InitThen) (jobs w) \<noteq> []"
    by (auto simp: consistent_def)
  then show "seedingPending w"
    by (auto simp: seedingPending_def filter_empty_conv)
qed

lemma keys_unique: "distinct (map fst (matchers (run cm evs (init ready))))"
proof -
  have "consistent (run cm evs (init ready))"
    by (rule consistent_run) (rule consistent_init)
  then show ?thesis
    by (simp add: consistent_def)
qed

text \<open>
  Claim C10. At every point of every history, as long as the callback that \<^verbatim>\<open>init\<close>
  attached to the pattern registry's readiness has not run (it still waits for the
  readiness, or it is queued behind other jobs), \<^verbatim>\<open>onReady()\<close> returns \<^verbatim>\<open>undefined\<close>,
  not a pending promise: \<open>readyPromise\<close> is assigned only after \<^verbatim>\<open>fillDefaults\<close>. Once
  the callback has run, \<^verbatim>\<open>onReady()\<close> returns a promise that is already fulfilled. As
  long as the pattern registry is not ready the callback has not run.
\<close>

theorem onReady_before_seeding:
  "(seedingPending (run cm evs (init ready)) \<longrightarrow> onReady (run cm evs (init ready)) = None) \<and>
   (\<not> seedingPending (run cm evs (init ready)) \<longrightarrow>
      onReady (run cm evs (init ready)) = Some Fulfilled) \<and>
   (\<not> patternsReady (run cm evs (init ready)) \<longrightarrow> seedingPending (run cm evs (init ready)))"
proof -
  have c: "consistent (run cm evs (init ready))"
    by (rule consistent_run) (rule consistent_init)
  then have "readyPromise (run cm evs (init ready)) = None \<or>
      readyPromise (run cm evs (init ready)) = Some Fulfilled"
    by (simp add: consistent_def)
  moreover from c have "\<not> patternsReady (run cm evs (init ready)) \<longrightarrow>
      InitThen \<in> set (reactions (run cm evs (init ready)))"
    by (simp add: consistent_def)
  ultimately show ?thesis
    using consistent_pending [OF c] by (auto simp: onReady_def seedingPending_def)
qed

text \<open>
  Three histories from a registry created before the pattern registry is ready: nothing
  happened; the pattern registry became ready; and then the queued callback ran.
\<close>

theorem onReady_before_seeding_witness:
  "onReady (run common_spec [] (init False :: (nat, unit, nat, unit) world)) = None \<and>
   onReady (run common_spec [(noPatterns, PatternsReady)]
     (init False :: (nat, unit, nat, unit) world)) = None \<and>
   onReady (run common_spec [(noPatterns, PatternsReady), (noPatterns, RunJob)]
     (init False :: (nat, unit, nat, unit) world)) = Some Fulfilled"
proof -
  let ?cm = "common_spec :: (nat, nat, unit, unit) common"
  let ?i = "init False :: (nat, unit, nat, unit) world"
  have a: "seedingPending (run ?cm [] ?i)"
    by (simp add: run_def init_def onReady_then_def seedingPending_def)
  have b: "seedingPending (run ?cm [(noPatterns, PatternsReady)] ?i)"
    by (simp add: run_def step_def init_def onReady_then_def seedingPending_def)
  have c: "\<not> seedingPending (run ?cm [(noPatterns, PatternsReady), (noPatterns, RunJob)] ?i)"
    by (simp add: run_def step_def run_job_def init_def onReady_then_def seedingPending_def
        fillDefaults_world)
  from a onReady_before_seeding [of ?cm "[]" False]
  have 1: "onReady (run ?cm [] ?i) = None"
    by blast
  from b onReady_before_seeding [of ?cm "[(noPatterns, PatternsReady)]" False]
  have 2: "onReady (run ?cm [(noPatterns, PatternsReady)] ?i) = None"
    by blast
  from c onReady_before_seeding [of ?cm "[(noPatterns, PatternsReady), (noPatterns, RunJob)]" False]
  have 3: "onReady (run ?cm [(noPatterns, PatternsReady), (noPatterns, RunJob)] ?i) =
      Some Fulfilled"
    by blast
  from 1 2 3 show ?thesis
    by blast
qed

subsection \<open>Histories that spare the default table\<close>

lemma add_spares_lookup:
  assumes "ProblemMatcher.name m \<notin> set (map Some defaultNames)" and "k \<in> set defaultNames"
  shows "map_of (matchers (add m s)) k = map_of (matchers s) k"
proof -
  have "''undefined'' \<notin> set defaultNames"
    by (simp add: defaultNames_def)
  with assms have "(case ProblemMatcher.name m of Some n \<Rightarrow> n | None \<Rightarrow> ''undefined'') \<noteq> k"
    by (auto split: option.splits)
  then show ?thesis
    by (simp add: matchers_add update_conv')
qed

lemma spares_resolved:
  "ProblemMatcherContribution.name c \<notin> set (map Some defaultNames) \<Longrightarrow>
   spares (AddMatcher (getProblemMatcherFromContribution cm pr c))"
  by (simp add: spares_def)

lemma step_spares:
  assumes "list_all spares (reactions w)" and "list_all spares (jobs w)" and "spares_event e"
  shows "list_all spares (reactions (step cm pr e w)) \<and>
         list_all spares (jobs (step cm pr e w)) \<and>
         (\<forall>k \<in> set defaultNames.
            map_of (matchers (step cm pr e w)) k = map_of (matchers w) k)"
proof (cases e)
  case PatternsReady
  with assms show ?thesis
    by (simp add: step_def)
next
  case (Register c)
  with assms(3) have c: "ProblemMatcherContribution.name c \<notin> set (map Some defaultNames)"
    by (simp add: spares_event_def)
  then have "spares (AddMatcher (getProblemMatcherFromContribution cm pr c))"
    by (rule spares_resolved)
  moreover from c have "spares (ResolvePattern c)"
    by (simp add: spares_def)
  ultimately show ?thesis
    using assms(1,2) Register
    by (auto simp: step_def register_call_def onReady_then_def
        split: option.splits PatternContribution.splits)
next
  case RunJob
  show ?thesis
  proof (cases "jobs w")
    case Nil
    with assms RunJob show ?thesis
      by (simp add: step_def)
  next
    case (Cons j js)
    with assms(2) have j: "spares j" and js: "list_all spares js"
      by simp_all
    show ?thesis
    proof (cases j)
      case InitThen
      with j show ?thesis
        by (simp add: spares_def)
    next
      case (ResolvePattern c)
      with j have "ProblemMatcherContribution.name c \<notin> set (map Some defaultNames)"
        by (simp add: spares_def)
      then have "spares (AddMatcher (getProblemMatcherFromContribution cm pr c))"
        by (rule spares_resolved)
      with assms(1) js RunJob Cons ResolvePattern show ?thesis
        by (simp add: step_def run_job_def)
    next
      case (AddMatcher m)
      with j have "ProblemMatcher.name m \<notin> set (map Some defaultNames)"
        by (simp add: spares_def)
      then have "\<forall>k \<in> set defaultNames.
          map_of (matchers (add m (w\<lparr>jobs := js\<rparr>))) k = map_of (matchers w) k"
        by (simp add: add_spares_lookup)
      with assms(1) js RunJob Cons AddMatcher show ?thesis
        by (simp add: step_def run_job_def)
    qed
  qed
qed

lemma run_spares:
  "quiet w evs \<Longrightarrow> k \<in> set defaultNames \<Longrightarrow>
   map_of (matchers (run cm evs w)) k = map_of (matchers w) k"
proof (induction evs arbitrary: w)
  case Nil
  show ?case by (simp add: run_def)
next
  case (Cons x evs)
  obtain pr e where x: "x = (pr, e)"
    by (cases x)
  from Cons.prems(1) x have q: "list_all spares (reactions w)" "list_all spares (jobs w)"
      "spares_event e" "list_all (\<lambda>(pr, e). spares_event e) evs"
    by (simp_all add: quiet_def)
  note s = step_spares [OF q(1,2,3), of cm pr]
  from s q(4) have "quiet (step cm pr e w) evs"
    by (simp add: quiet_def)
  then have "map_of (matchers (run cm evs (step cm pr e w))) k =
      map_of (matchers (step cm pr e w)) k"
    using Cons.prems(2) by (rule Cons.IH)
  also have "\<dots> = map_of (matchers w) k"
    using s Cons.prems(2) by blast
  finally show ?case
    by (simp add: run_def x)
qed

lemma defaults_stay:
  fixes w :: "('pc, 'wc, 'p, 'w) world"
  assumes "quiet w evs" and "m \<in> set (defaultMatchers pr)"
  shows "Some m \<in> set (getAll (run cm evs (run_job cm pr InitThen w)))"
proof -
  let ?w = "run_job cm pr InitThen w"
  from fillDefaults_lookup [OF assms(2), of w]
  obtain k where k: "ProblemMatcher.name m = Some k" and p: "\<not> startsWith k ''$''"
    and l: "map_of (matchers ?w) k = Some m"
    by (auto simp: run_job_def)
  have "ProblemMatcher.name m \<in>
      set (map ProblemMatcher.name (defaultMatchers pr :: ('p, 'w) ProblemMatcher list))"
    using assms(2) unfolding set_map by (rule imageI)
  with k have kd: "k \<in> set defaultNames"
    unfolding default_names by auto
  have "quiet ?w evs"
    using assms(1) by (simp add: quiet_def run_job_def fillDefaults_world)
  then have "map_of (matchers (run cm evs ?w)) k = map_of (matchers ?w) k"
    using kd by (rule run_spares)
  with l p show ?thesis
    by (simp add: getAll_member)
qed

lemma run_append: "run cm (xs @ ys) w = run cm ys (run cm xs w)"
  by (simp add: run_def)

lemma run_seeding:
  "jobs w = InitThen # js \<Longrightarrow>
   run cm ((pr, RunJob) # evs) w = run cm evs (run_job cm pr InitThen (w\<lparr>jobs := js\<rparr>))"
  by (simp add: run_def step_def)

text \<open>
  Claim C7, as amended. The callback of \<^verbatim>\<open>init\<close> runs only after the pattern registry's
  readiness has settled. When it has run, then whatever the registry held before,
  \<^verbatim>\<open>getAll()\<close> contains each of the eight default entries as \<^verbatim>\<open>fillDefaults\<close> writes
  them, among them a matcher named \<^verbatim>\<open>msCompile\<close> whose \<open>fileLocation\<close> is \<^verbatim>\<open>absolute\<close>
  and whose \<open>applyTo\<close> is \<^verbatim>\<open>allDocuments\<close>, and \<open>readyPromise\<close> is fulfilled.
  \<^verbatim>\<open>getAll()\<close> goes on containing these entries as long as no \<^verbatim>\<open>register\<close> under a
  default name was pending when the callback ran or has been called since. At every
  point of every history after the callback \<^verbatim>\<open>getAll()\<close> contains a matcher under each
  default name.
\<close>

theorem seeding_defaults:
  fixes w :: "('pc, 'wc, 'p, 'w) world"
  shows
  "(\<forall>m \<in> set (defaultMatchers pr). Some m \<in> set (getAll (run_job cm pr InitThen w))) \<and>
   (\<exists>m. Some m \<in> set (getAll (run_job cm pr InitThen w)) \<and>
        ProblemMatcher.name m = Some ''msCompile'' \<and> fileLocation m = Absolute \<and>
        applyTo m = allDocuments) \<and>
   readyPromise (run_job cm pr InitThen w) = Some Fulfilled \<and>
   (\<not> seedingPending (run cm evs (init ready)) \<longrightarrow>
      (\<forall>n \<in> set defaultNames.
         \<exists>m. Some m \<in> set (getAll (run cm evs (init ready))) \<and> ProblemMatcher.name m = Some n)) \<and>
   (quiet w evs' \<longrightarrow>
      (\<forall>m \<in> set (defaultMatchers pr).
         Some m \<in> set (getAll (run cm evs' (run_job cm pr InitThen w)))) \<and>
      (\<exists>m. Some m \<in> set (getAll (run cm evs' (run_job cm pr InitThen w))) \<and>
           ProblemMatcher.name m = Some ''msCompile'' \<and> fileLocation m = Absolute \<and>
           applyTo m = allDocuments)) \<and>
   (jobs (run cm evs (init ready)) = InitThen # js \<and>
    quiet ((run cm evs (init ready))\<lparr>jobs := js\<rparr>) evs' \<longrightarrow>
      (\<forall>m \<in> set (defaultMatchers pr).
         Some m \<in> set (getAll (run cm (evs @ (pr, RunJob) # evs') (init ready)))))"
proof -
  let ?w = "run_job cm pr InitThen w"
  let ?d = "hd (defaultMatchers pr) :: ('p, 'w) ProblemMatcher"
  have d: "?d \<in> set (defaultMatchers pr)"
    by (simp add: defaultMatchers_def)
  have dm: "ProblemMatcher.name ?d = Some ''msCompile'' \<and> fileLocation ?d = Absolute \<and>
      applyTo ?d = allDocuments"
    by (simp add: defaultMatchers_def)
  have q0: "quiet w []" if "quiet w evs'"
    using that by (simp add: quiet_def)
  have ms: "matchers ?w = matchers (fillDefaults pr w)"
    by (simp add: run_job_def)
  have 1: "\<forall>m \<in> set (defaultMatchers pr). Some m \<in> set (getAll ?w)"
  proof
    fix m :: "('p, 'w) ProblemMatcher"
    assume "m \<in> set (defaultMatchers pr)"
    from fillDefaults_lookup [OF this, of w]
    obtain k where "\<not> startsWith k ''$''" and "map_of (matchers ?w) k = Some m"
      unfolding ms by blast
    then show "Some m \<in> set (getAll ?w)"
      by (simp add: getAll_member)
  qed
  from 1 d have "Some ?d \<in> set (getAll ?w)"
    by blast
  with dm have 2: "\<exists>m. Some m \<in> set (getAll ?w) \<and>
      ProblemMatcher.name m = Some ''msCompile'' \<and> fileLocation m = Absolute \<and>
      applyTo m = allDocuments"
    by blast
  have 3: "readyPromise ?w = Some Fulfilled"
    by (simp add: run_job_def)
  let ?r = "run cm evs (init ready)"
  have 4: "\<forall>n \<in> set defaultNames. \<exists>m. Some m \<in> set (getAll ?r) \<and> ProblemMatcher.name m = Some n"
    if "\<not> seedingPending ?r"
  proof
    fix n assume n: "n \<in> set defaultNames"
    have c: "consistent ?r"
      by (rule consistent_run) (rule consistent_init)
    with that have "readyPromise ?r \<noteq> None"
      by (simp add: consistent_pending)
    with c n have "n \<in> fst ` set (matchers ?r)"
      unfolding consistent_def by blast
    then obtain m where m: "map_of (matchers ?r) n = Some m"
      by (metis map_of_eq_None_iff not_Some_eq)
    from c have "named ?r"
      by (simp add: consistent_def)
    then have "ProblemMatcher.name m = Some n"
      using m by (rule named_lookup)
    moreover have "Some m \<in> set (getAll ?r)"
      using m n default_names_plain by (simp add: getAll_member)
    ultimately show "\<exists>m. Some m \<in> set (getAll ?r) \<and> ProblemMatcher.name m = Some n"
      by blast
  qed
  have 5: "\<forall>m \<in> set (defaultMatchers pr). Some m \<in> set (getAll (run cm evs' ?w))"
    if "quiet w evs'"
    using that by (blast intro: defaults_stay)
  have 6: "\<exists>m. Some m \<in> set (getAll (run cm evs' ?w)) \<and>
      ProblemMatcher.name m = Some ''msCompile'' \<and> fileLocation m = Absolute \<and>
      applyTo m = allDocuments"
    if "quiet w evs'"
  proof -
    from 5 [OF that] d have "Some ?d \<in> set (getAll (run cm evs' ?w))"
      by blast
    with dm show ?thesis
      by blast
  qed
  have 7: "\<forall>m \<in> set (defaultMatchers pr).
      Some m \<in> set (getAll (run cm (evs @ (pr, RunJob) # evs') (init ready)))"
    if j: "jobs ?r = InitThen # js" and q: "quiet (?r\<lparr>jobs := js\<rparr>) evs'"
  proof
    fix m :: "('p, 'w) ProblemMatcher"
    assume m: "m \<in> set (defaultMatchers pr)"
    have "run cm (evs @ (pr, RunJob) # evs') (init ready) =
        run cm evs' (run_job cm pr InitThen (?r\<lparr>jobs := js\<rparr>))"
      using j by (simp add: run_append run_seeding)
    moreover have "Some m \<in> set (getAll (run cm evs' (run_job cm pr InitThen (?r\<lparr>jobs := js\<rparr>))))"
      using q m by (rule defaults_stay)
    ultimately show "Some m \<in> set (getAll (run cm (evs @ (pr, RunJob) # evs') (init ready)))"
      by simp
  qed
  from 1 2 3 4 5 6 7 show ?thesis
    by blast
qed

text \<open>
  With nothing else registered, \<^verbatim>\<open>getAll()\<close> after seeding is the default table in its
  order.
\<close>

lemma seeded_getAll:
  "getAll (run cm [(pr0, PatternsReady), (pr, RunJob)] (init False)) =
     map Some (defaultMatchers pr)"
proof -
  let ?w = "run cm [(pr0, PatternsReady), (pr, RunJob)] (init False)"
  have ms: "matchers ?w = map (\<lambda>m. (the (ProblemMatcher.name m), m)) (defaultMatchers pr)"
    by (simp add: run_def step_def run_job_def init_def onReady_then_def fillDefaults_def
        defaultMatchers_def matchers_add)
  have ks: "Object_keys (matchers ?w) = defaultNames"
    unfolding ms
    by (simp add: Object_keys_def defaultMatchers_def defaultNames_def array_index_def
        is_digit_def)
  show ?thesis
    unfolding getAll_def ks
    by (simp add: get_def ms defaultNames_def defaultMatchers_def startsWith_def)
qed

text \<open>
  The callback run on a fresh registry; the history in which the pattern registry
  becomes ready and the callback runs; and a quiet history after the callback, in which
  \<^verbatim>\<open>{ name: "x" }\<close> is registered.
\<close>

theorem seeding_defaults_witness:
  "Some (hd (defaultMatchers noPatterns)) \<in>
     set (getAll (run_job common_spec noPatterns InitThen
       (init True :: (nat, unit, nat, unit) world))) \<and>
   (\<exists>m. Some m \<in> set (getAll (run common_spec [(noPatterns, PatternsReady), (noPatterns, RunJob)]
            (init False :: (nat, unit, nat, unit) world))) \<and>
        ProblemMatcher.name m = Some ''msCompile'') \<and>
   Some (hd (defaultMatchers noPatterns)) \<in>
     set (getAll (run common_spec
       ([(noPatterns, PatternsReady)] @ (noPatterns, RunJob) #
        [(noPatterns, Register (contribution (Some ''x''))), (noPatterns, RunJob)])
       (init False :: (nat, unit, nat, unit) world)))"
proof -
  let ?cm = "common_spec :: (nat, nat, unit, unit) common"
  let ?i = "init False :: (nat, unit, nat, unit) world"
  let ?evs = "[(noPatterns, PatternsReady), (noPatterns, RunJob)]"
  let ?pre = "[(noPatterns, PatternsReady)]"
  let ?post = "[(noPatterns, Register (contribution (Some ''x''))), (noPatterns, RunJob)]"
  have h: "hd (defaultMatchers noPatterns) \<in>
      set (defaultMatchers noPatterns :: (nat, unit) ProblemMatcher list)"
    by (simp add: defaultMatchers_def)
  note t = seeding_defaults [where pr = noPatterns and cm = ?cm
      and w = "init True :: (nat, unit, nat, unit) world" and evs = ?evs and ready = False]
  from h t have 1: "Some (hd (defaultMatchers noPatterns)) \<in>
     set (getAll (run_job ?cm noPatterns InitThen (init True :: (nat, unit, nat, unit) world)))"
    by blast
  have c: "\<not> seedingPending (run ?cm ?evs ?i)"
    by (simp add: run_def step_def run_job_def init_def onReady_then_def seedingPending_def
        fillDefaults_world)
  have "''msCompile'' \<in> set defaultNames"
    by (simp add: defaultNames_def)
  with t c have 2: "\<exists>m. Some m \<in> set (getAll (run ?cm ?evs ?i)) \<and>
      ProblemMatcher.name m = Some ''msCompile''"
    by blast
  have j: "jobs (run ?cm ?pre ?i) = InitThen # []"
    by (simp add: run_def step_def init_def onReady_then_def)
  have q: "quiet ((run ?cm ?pre ?i)\<lparr>jobs := []\<rparr>) ?post"
    by (simp add: quiet_def run_def step_def init_def onReady_then_def spares_event_def
        contribution_def defaultNames_def)
  from j q h seeding_defaults [where pr = noPatterns and cm = ?cm and evs = ?pre
      and ready = False and js = "[]" and evs' = ?post]
  have 3: "Some (hd (defaultMatchers noPatterns)) \<in>
     set (getAll (run ?cm (?pre @ (noPatterns, RunJob) # ?post) ?i))"
    by blast
  from 1 2 3 show ?thesis
    by blast
qed

text \<open>
  The pattern registry becomes ready, the callback runs, and then
  \<^verbatim>\<open>register({ name: "msCompile", pattern: [] })\<close> is called and completes. Seeding has
  run and \<^verbatim>\<open>getAll()\<close> has the eight default names, but the only matcher named
  \<^verbatim>\<open>msCompile\<close> has the \<open>fileLocation\<close> \<^verbatim>\<open>relative\<close>.
\<close>

theorem seeding_defaults_counterexample:
  "\<not> seedingPending (run common_spec
       [(noPatterns, PatternsReady), (noPatterns, RunJob),
        (noPatterns, Register msCompileAgain), (noPatterns, RunJob)] (init False)) \<and>
   patternsReady (run common_spec
       [(noPatterns, PatternsReady), (noPatterns, RunJob),
        (noPatterns, Register msCompileAgain), (noPatterns, RunJob)] (init False)) \<and>
   map (map_option ProblemMatcher.name) (getAll (run common_spec
       [(noPatterns, PatternsReady), (noPatterns, RunJob),
        (noPatterns, Register msCompileAgain), (noPatterns, RunJob)] (init False))) =
     [Some (Some ''msCompile''), Some (Some ''lessCompile''), Some (Some ''gulp-tsc''),
      Some (Some ''jshint''), Some (Some ''jshint-stylish''), Some (Some ''eslint-compact''),
      Some (Some ''eslint-stylish''), Some (Some ''go'')] \<and>
   map (map_option fileLocation) (getAll (run common_spec
       [(noPatterns, PatternsReady), (noPatterns, RunJob),
        (noPatterns, Register msCompileAgain), (noPatterns, RunJob)] (init False))) =
     [Some Relative, Some Absolute, Some Relative, Some Absolute, Some Absolute,
      Some Absolute, Some Absolute, Some Relative]"
proof -
  let ?m = "getProblemMatcherFromContribution common_spec noPatterns msCompileAgain"
  let ?w = "run common_spec
       [(noPatterns, PatternsReady), (noPatterns, RunJob),
        (noPatterns, Register msCompileAgain), (noPatterns, RunJob)] (init False)"
  have nm: "ProblemMatcher.name ?m = Some ''msCompile''"
    by (simp add: msCompileAgain_def contribution_def)
  have f: "\<not> falsy (ProblemMatcherContribution.name msCompileAgain)"
      "ProblemMatcherContribution.pattern msCompileAgain = Some (PatternInlines [])"
      "ProblemMatcherContribution.name msCompileAgain = Some ''msCompile''"
    by (simp_all add: msCompileAgain_def contribution_def falsy_def)
  have fl: "fileLocation ?m = Relative"
    by (simp add: resolved_fileLocation getFileLocationKindAndPrefix_def msCompileAgain_def
        contribution_def)
  have ms: "matchers ?w =
      (''msCompile'', ?m) #
      tl (map (\<lambda>m. (the (ProblemMatcher.name m), m)) (defaultMatchers noPatterns))"
    by (simp add: run_def step_def run_job_def init_def onReady_then_def fillDefaults_def
        defaultMatchers_def matchers_add register_call_def f falsy_def fillDefaults_world nm)
  have q: "\<not> seedingPending ?w \<and> patternsReady ?w"
    by (simp add: run_def step_def run_job_def init_def onReady_then_def seedingPending_def
        fillDefaults_world register_call_def f falsy_def)
  have ks: "Object_keys (matchers ?w) = defaultNames"
    unfolding ms
    by (simp add: Object_keys_def defaultMatchers_def defaultNames_def array_index_def
        is_digit_def)
  have g: "getAll ?w = map (get ?w) defaultNames"
    by (simp only: getAll_def ks)
  have n: "map (map_option ProblemMatcher.name) (getAll ?w) =
     [Some (Some ''msCompile''), Some (Some ''lessCompile''), Some (Some ''gulp-tsc''),
      Some (Some ''jshint''), Some (Some ''jshint-stylish''), Some (Some ''eslint-compact''),
      Some (Some ''eslint-stylish''), Some (Some ''go'')]"
    unfolding g
    by (simp add: get_def ms defaultNames_def defaultMatchers_def startsWith_def f)
  have l: "map (map_option fileLocation) (getAll ?w) =
     [Some Relative, Some Absolute, Some Relative, Some Absolute, Some Absolute,
      Some Absolute, Some Absolute, Some Relative]"
    unfolding g
    by (simp add: get_def ms defaultNames_def defaultMatchers_def startsWith_def fl)
  from q n l show ?thesis
    by blast
qed

subsection \<open>\<^verbatim>\<open>register\<close> in a history\<close>

text \<open>
  Once the pattern registry is ready, a call of \<^verbatim>\<open>register\<close> on an idle queue is
  complete after at most two jobs, in the state that \<open>register\<close> gives.
\<close>

lemma register_completes:
  assumes "patternsReady w" and "jobs w = []"
  shows "run cm [(pr, Register c), (pr, RunJob), (pr, RunJob)] w = register cm pr c w"
proof -
  have w: "w\<lparr>jobs := []\<rparr> = w"
    using assms(2) by (metis world.surjective world.update_convs(3))
  show ?thesis
    using assms
    by (auto simp: run_def step_def register_call_def register_def run_job_def onReady_then_def
        w split: option.splits PatternContribution.splits)
qed

end
